theory Spec2Isabelle
  imports Complex_Main "HOL-Library.Sublist"
begin

section \<open>Values\<close>

text \<open>
  A pandas float column holds binary64 values. A finite value is the real number it
  stands for, and every arithmetic operation rounds its exact result to the nearest
  binary64 value (\<open>binary64\<close> below), overflowing to an infinity. The three special
  values are kept, because the code meets all of them: \<open>NaN\<close> is the null of a numeric
  column, and the infinities come out of a division by zero or out of the text \<open>inf\<close>.
  A column of integers holds the same numbers as long as they are binary64 values, which
  every integer up to \<open>2 ^ 53\<close> is; the model takes the numbers of a column to be such.

  The two zeros of binary64, which compare equal, are the one value \<open>Fin 0\<close>. The sign of
  a zero decides a result of the code in one place, where the maximum pressure divides
  and is a zero; there the sign is an argument of the division (\<open>fdiv_signed\<close>). The
  sign of a zero that a column stores, and with it the text and the hash of a zero, is
  not followed.
\<close>

datatype num = NaN | NInf | Fin real | PInf

text \<open>
  A value of a raw record, as \<open>json.load\<close> produces it. The source API delivers strings;
  JSON also allows null, booleans and numbers. Records are flat: arrays and objects as values
  are outside the model.
\<close>

datatype scalar = JNull | JStr string | JBool bool | JInt int | JFloat num

text \<open>A raw record is a Python dict: keys in insertion order, looked up with \<open>map_of\<close>.\<close>

type_synonym raw_record = "(string \<times> scalar) list"

datatype exc =
    ValueError string
  | KeyError string
  | TypeError
  | AttributeError
  | IndexError
  | DuplicateLabel string
  | FileExistsError string
  | NotADirectoryError string
  | IsADirectoryError string
  | FileNotFoundError string
  | JSONDecodeError
  | External string

section \<open>validation.py\<close>

definition REQUIRED_COLS :: "string list" where
  "REQUIRED_COLS =
     [''objectid'', ''assetid'', ''lifecyclestatus'', ''servicearea'',
      ''staticpressure'', ''latitude'', ''longitude'', ''neighborhood'']"

text \<open>The loop of \<open>validate\<close>: the first required column that is not a key ends it with False.\<close>

fun validate_cols :: "string list \<Rightarrow> raw_record \<Rightarrow> bool" where
  "validate_cols [] record = True"
| "validate_cols (col # cols) record =
     (if col \<notin> set (map fst record) then False else validate_cols cols record)"

definition validate :: "raw_record \<Rightarrow> bool" where
  "validate record = validate_cols REQUIRED_COLS record"

text \<open>
  The loop of \<open>validate_data\<close> over the parsed payload, with its two accumulators:
  \<open>valid_records.append(record)\<close> and \<open>invalid_count += 1\<close>.
\<close>

fun validate_loop :: "raw_record list \<Rightarrow> raw_record list \<Rightarrow> int \<Rightarrow> raw_record list \<times> int" where
  "validate_loop [] valid_records invalid_count = (valid_records, invalid_count)"
| "validate_loop (record # data) valid_records invalid_count =
     (if validate record
      then validate_loop data (valid_records @ [record]) invalid_count
      else validate_loop data valid_records (invalid_count + 1))"

text \<open>
  \<open>open(file_path)\<close> and \<open>json.load\<close> belong to the environment: \<open>load_json\<close> gives the
  parsed payload of a path, or the exception that reading or parsing raised. The payloads
  of the model are sequences of records.
\<close>

definition validate_data ::
  "(string \<Rightarrow> exc + raw_record list) \<Rightarrow> string \<Rightarrow> exc + (raw_record list \<times> int)" where
  "validate_data load_json file_path =
     (case load_json file_path of
        Inl e \<Rightarrow> Inl e
      | Inr data \<Rightarrow> Inr (validate_loop data [] 0))"

section \<open>Numeric columns\<close>

text \<open>
  Rounding to the nearest integer with ties to even (\<open>rint\<close>), and rounding a real to
  binary64: 53 significant bits, ties to even, the least exponent \<open>-1022\<close> (below it the
  spacing stays \<open>2 ^ -1074\<close>), and an infinity from \<open>2 ^ 1024\<close> on.
\<close>

definition rint :: "real \<Rightarrow> int" where
  "rint x =
     (let f = \<lfloor>x\<rfloor>; d = x - of_int f
      in if d < 1 / 2 then f else if 1 / 2 < d then f + 1 else if even f then f else f + 1)"

definition signed_inf :: "bool \<Rightarrow> num" where
  "signed_inf positive = (if positive then PInf else NInf)"

definition overflow_threshold :: real where
  "overflow_threshold = 2 ^ 1024"

definition binary64 :: "real \<Rightarrow> num" where
  "binary64 x =
     (if x = 0 then Fin 0
      else
        (let e = max \<lfloor>log 2 \<bar>x\<bar>\<rfloor> (- 1022);
             ulp = 2 powr of_int (e - 52);
             r = of_int (rint (x / ulp)) * ulp
         in if overflow_threshold \<le> \<bar>r\<bar> then signed_inf (0 < x) else Fin r))"

text \<open>Arithmetic and comparison of column values, with the special values spelled out.\<close>

fun fneg :: "num \<Rightarrow> num" where
  "fneg NaN = NaN"
| "fneg NInf = PInf"
| "fneg (Fin a) = Fin (- a)"
| "fneg PInf = NInf"

fun fadd :: "num \<Rightarrow> num \<Rightarrow> num" where
  "fadd NaN b = NaN"
| "fadd a NaN = NaN"
| "fadd (Fin a) (Fin b) = binary64 (a + b)"
| "fadd PInf NInf = NaN"
| "fadd NInf PInf = NaN"
| "fadd PInf b = PInf"
| "fadd a PInf = PInf"
| "fadd NInf b = NInf"
| "fadd a NInf = NInf"

definition fsub :: "num \<Rightarrow> num \<Rightarrow> num" where
  "fsub a b = fadd a (fneg b)"

fun fmul :: "num \<Rightarrow> num \<Rightarrow> num" where
  "fmul NaN b = NaN"
| "fmul a NaN = NaN"
| "fmul (Fin a) (Fin b) = binary64 (a * b)"
| "fmul (Fin a) PInf = (if a = 0 then NaN else signed_inf (0 < a))"
| "fmul (Fin a) NInf = (if a = 0 then NaN else signed_inf (a < 0))"
| "fmul PInf (Fin b) = (if b = 0 then NaN else signed_inf (0 < b))"
| "fmul NInf (Fin b) = (if b = 0 then NaN else signed_inf (b < 0))"
| "fmul PInf PInf = PInf"
| "fmul PInf NInf = NInf"
| "fmul NInf PInf = NInf"
| "fmul NInf NInf = PInf"

fun fdiv :: "num \<Rightarrow> num \<Rightarrow> num" where
  "fdiv NaN b = NaN"
| "fdiv a NaN = NaN"
| "fdiv (Fin a) (Fin b) =
     (if b = 0 then (if a = 0 then NaN else signed_inf (0 < a)) else binary64 (a / b))"
| "fdiv (Fin a) PInf = Fin 0"
| "fdiv (Fin a) NInf = Fin 0"
| "fdiv PInf (Fin b) = signed_inf (0 \<le> b)"
| "fdiv NInf (Fin b) = signed_inf (b < 0)"
| "fdiv PInf PInf = NaN"
| "fdiv PInf NInf = NaN"
| "fdiv NInf PInf = NaN"
| "fdiv NInf NInf = NaN"

text \<open>
  \<open>fdiv\<close> divides by the positive zero when the divisor is zero. The quotient by the
  negative zero is the opposite one.
\<close>

definition fdiv_signed :: "bool \<Rightarrow> num \<Rightarrow> num \<Rightarrow> num" where
  "fdiv_signed negative_zero a b =
     (if negative_zero \<and> b = Fin 0 then fneg (fdiv a b) else fdiv a b)"

text \<open>Every comparison with \<open>NaN\<close> is False.\<close>

fun flt :: "num \<Rightarrow> num \<Rightarrow> bool" where
  "flt NaN b = False"
| "flt a NaN = False"
| "flt (Fin a) (Fin b) = (a < b)"
| "flt a NInf = False"
| "flt PInf b = False"
| "flt NInf b = True"
| "flt a PInf = True"

definition fle :: "num \<Rightarrow> num \<Rightarrow> bool" where
  "fle a b = (a \<noteq> NaN \<and> b \<noteq> NaN \<and> \<not> flt b a)"

definition fge :: "num \<Rightarrow> num \<Rightarrow> bool" where
  "fge a b = fle b a"

text \<open>\<open>Series.between(left, right)\<close>, both ends included.\<close>

definition between :: "num \<Rightarrow> num \<Rightarrow> num \<Rightarrow> bool" where
  "between x left right = (fge x left \<and> fle x right)"

definition isna :: "num \<Rightarrow> bool" where
  "isna x = (x = NaN)"

definition fillna :: "num \<Rightarrow> num \<Rightarrow> num" where
  "fillna v x = (if isna x then v else x)"

text \<open>
  \<open>Series.round(d)\<close> is numpy's \<open>round\<close>: multiply by \<open>10 ** d\<close>, round to the nearest
  integer with ties to even, divide by \<open>10 ** d\<close>, each step in binary64.
\<close>

definition frint :: "num \<Rightarrow> num" where
  "frint x = (case x of Fin r \<Rightarrow> Fin (of_int (rint r)) | _ \<Rightarrow> x)"

definition fround :: "nat \<Rightarrow> num \<Rightarrow> num" where
  "fround d x = fdiv (frint (fmul x (Fin (10 ^ d)))) (Fin (10 ^ d))"

text \<open>\<open>Series.max()\<close> skips nulls; it is null when nothing is left.\<close>

definition fmax :: "num \<Rightarrow> num \<Rightarrow> num" where
  "fmax a b = (if flt a b then b else a)"

definition series_max :: "num list \<Rightarrow> num" where
  "series_max xs =
     (case filter (\<lambda>x. \<not> isna x) xs of [] \<Rightarrow> NaN | y # ys \<Rightarrow> foldl fmax y ys)"

text \<open>
  \<open>Series.median()\<close> skips nulls as well: the middle of the sorted values, the mean of the
  two middle ones for an even count, null when nothing is left.
\<close>

fun insort_num :: "num \<Rightarrow> num list \<Rightarrow> num list" where
  "insort_num x [] = [x]"
| "insort_num x (y # ys) = (if fle x y then x # y # ys else y # insort_num x ys)"

definition sort_num :: "num list \<Rightarrow> num list" where
  "sort_num xs = foldr insort_num xs []"

definition series_median :: "num list \<Rightarrow> num" where
  "series_median xs =
     (let ys = sort_num (filter (\<lambda>x. \<not> isna x) xs); n = length ys
      in if n = 0 then NaN
         else if odd n then ys ! (n div 2)
         else fdiv (fadd (ys ! (n div 2 - 1)) (ys ! (n div 2))) (Fin 2))"

text \<open>
  \<open>pd.cut(x, bins, labels)\<close> with the default \<open>right=True\<close>: the label of the first interval
  \<open>(lo, hi]\<close> that holds the value, null when there is none.
\<close>

fun cut :: "num list \<Rightarrow> string list \<Rightarrow> num \<Rightarrow> string option" where
  "cut (lo # hi # bins) (l # labels) x =
     (if flt lo x \<and> fle x hi then Some l else cut (hi # bins) labels x)"
| "cut bins labels x = None"

text \<open>
  \<open>astype('Int64')\<close> of a float column: a null stays null, a whole number in the range of
  int64 is cast, anything else raises.
\<close>

definition to_Int64 :: "num \<Rightarrow> exc + int option" where
  "to_Int64 x =
     (case x of
        NaN \<Rightarrow> Inr None
      | Fin r \<Rightarrow>
          if of_int \<lfloor>r\<rfloor> = r \<and> - (2 ^ 63) \<le> r \<and> r < 2 ^ 63 then Inr (Some \<lfloor>r\<rfloor>) else Inl TypeError
      | _ \<Rightarrow> Inl TypeError)"

fun astype_Int64 :: "num list \<Rightarrow> exc + int option list" where
  "astype_Int64 [] = Inr []"
| "astype_Int64 (x # xs) =
     (case to_Int64 x of
        Inl e \<Rightarrow> Inl e
      | Inr v \<Rightarrow> (case astype_Int64 xs of Inl e \<Rightarrow> Inl e | Inr vs \<Rightarrow> Inr (v # vs)))"

section \<open>Text columns\<close>

text \<open>
  A Python string is the list of the bytes of its UTF-8 form. Python's \<open>str.strip\<close>,
  \<open>str.upper\<close>, \<open>str.lower\<close> and \<open>str.title\<close> follow the Unicode tables and are taken
  from the environment (see \<open>env\<close> below). What is fixed here is how they act on a string of
  ASCII characters: the white space is the ASCII white space, the cased characters are
  the ASCII letters.
\<close>

definition is_ascii :: "string \<Rightarrow> bool" where
  "is_ascii s = list_all (\<lambda>c. (of_char c :: nat) < 128) s"

definition is_space :: "char \<Rightarrow> bool" where
  "is_space c = (of_char c \<in> set [9, 10, 11, 12, 13, 28, 29, 30, 31, 32 :: nat])"

definition ascii_lowercase :: string where
  "ascii_lowercase = ''abcdefghijklmnopqrstuvwxyz''"

definition ascii_uppercase :: string where
  "ascii_uppercase = ''ABCDEFGHIJKLMNOPQRSTUVWXYZ''"

definition is_lower :: "char \<Rightarrow> bool" where
  "is_lower c = (c \<in> set ascii_lowercase)"

definition is_upper :: "char \<Rightarrow> bool" where
  "is_upper c = (c \<in> set ascii_uppercase)"

definition upper_char :: "char \<Rightarrow> char" where
  "upper_char c =
     (case map_of (zip ascii_lowercase ascii_uppercase) c of Some u \<Rightarrow> u | None \<Rightarrow> c)"

definition lower_char :: "char \<Rightarrow> char" where
  "lower_char c =
     (case map_of (zip ascii_uppercase ascii_lowercase) c of Some l \<Rightarrow> l | None \<Rightarrow> c)"

definition ascii_strip :: "string \<Rightarrow> string" where
  "ascii_strip s = rev (dropWhile is_space (rev (dropWhile is_space s)))"

definition ascii_upper :: "string \<Rightarrow> string" where
  "ascii_upper s = map upper_char s"

definition ascii_lower :: "string \<Rightarrow> string" where
  "ascii_lower s = map lower_char s"

text \<open>
  \<open>str.title\<close>: a letter that follows a letter is lowered, a letter that follows anything
  else (or starts the string) is raised.
\<close>

fun title_from :: "bool \<Rightarrow> string \<Rightarrow> string" where
  "title_from after_letter [] = []"
| "title_from after_letter (c # cs) =
     (if is_lower c \<or> is_upper c
      then (if after_letter then lower_char c else upper_char c) # title_from True cs
      else c # title_from False cs)"

definition ascii_title :: "string \<Rightarrow> string" where
  "ascii_title s = title_from False s"

definition isin :: "string option \<Rightarrow> string list \<Rightarrow> bool" where
  "isin cell values = (case cell of None \<Rightarrow> False | Some s \<Rightarrow> s \<in> set values)"

section \<open>transform.py\<close>

text \<open>
  What \<open>transform_data\<close> takes from outside the repository:
  \<^item> \<open>parse_number\<close>, the parser behind \<open>pd.to_numeric\<close> for a string or a boolean;
  \<^item> \<open>astype_str\<close>, what \<open>Series.astype(str)\<close> makes of one cell of a column of raw values.
    It is given the whole column, because pandas chooses the type of a column from all its
    values, and it may answer null: pandas 1 and 2 turn every value into a string (None
    into the text None in a column of objects), pandas 3 leaves a missing value missing;
  \<^item> \<open>float_str\<close>, what \<open>astype(str)\<close> makes of one value of a float column;
  \<^item> \<open>py_strip\<close>, \<open>py_upper\<close>, \<open>py_lower\<close>, \<open>py_title\<close>, the functions behind \<open>.str.strip()\<close>,
    \<open>.str.upper()\<close>, \<open>.str.lower()\<close> and \<open>.str.title()\<close>: the methods of Python's \<open>str\<close> for
    a column of objects, with the white space and the letters of Unicode;
  \<^item> \<open>negative_zero_max\<close>, whether \<open>Series.max()\<close> of a column is the negative zero (it
    can be when the maximum is zero: which of the zeros of the column numpy returns, and
    which of them were negative, is not in the column of the model);
  \<^item> \<open>hash_row\<close>, the row hash of \<open>pd.util.hash_pandas_object\<close>, as a string;
  \<^item> \<open>utc_date\<close> and \<open>utc_now\<close>, the two readings of the clock.
\<close>

record date =
  year :: nat
  month :: nat
  day :: nat

record env =
  parse_number :: "scalar \<Rightarrow> num"
  astype_str :: "scalar list \<Rightarrow> scalar \<Rightarrow> string option"
  float_str :: "num \<Rightarrow> string option"
  py_strip :: "string \<Rightarrow> string"
  py_upper :: "string \<Rightarrow> string"
  py_lower :: "string \<Rightarrow> string"
  py_title :: "string \<Rightarrow> string"
  negative_zero_max :: "num list \<Rightarrow> bool"
  hash_row :: "int option \<Rightarrow> num \<Rightarrow> num \<Rightarrow> string"
  utc_date :: date
  utc_now :: nat

text \<open>
  Two facts about these parameters that the examples of the claims rest on, stated as
  conditions on the environment: on a string of ASCII characters the four text functions
  act as the ASCII functions above, which is what the methods of Python's \<open>str\<close> do; and
  \<open>astype(str)\<close> leaves a string as it is.
\<close>

definition ascii_conform :: "env \<Rightarrow> bool" where
  "ascii_conform env =
     (\<forall>s. is_ascii s \<longrightarrow>
            py_strip env s = ascii_strip s \<and> py_upper env s = ascii_upper s
          \<and> py_lower env s = ascii_lower s \<and> py_title env s = ascii_title s)"

definition strings_kept :: "env \<Rightarrow> bool" where
  "strings_kept env = (\<forall>column s. astype_str env column (JStr s) = Some s)"

record feature_record =
  objectid :: "int option"
  assetid :: num
  record_hash :: string
  latitude :: num
  longitude :: num
  geo_cluster :: "string option"
  neighborhood :: "string option"
  servicearea :: "string option"
  lifecyclestatus :: "string option"
  is_active :: int
  staticpressure :: num
  pressure_category :: "string option"
  pressure_risk_score :: num
  service_quality :: string
  load_date :: date
  load_timestamp :: nat

text \<open>
  A DataFrame is either the frame \<open>pd.DataFrame(valid_records)\<close> as it was built, which is
  what the early return hands back, or the sixteen feature columns, row by row.
\<close>

datatype frame = Raw "raw_record list" | Features "feature_record list"

text \<open>The column labels of \<open>pd.DataFrame(records)\<close>: the keys, in the order of first appearance.\<close>

definition columns :: "raw_record list \<Rightarrow> string list" where
  "columns records = rev (remdups (rev (concat (map (map fst) records))))"

text \<open>\<open>df.empty\<close>: no rows or no columns.\<close>

fun df_empty :: "frame \<Rightarrow> bool" where
  "df_empty (Raw records) = (records = [] \<or> columns records = [])"
| "df_empty (Features rows) = (rows = [])"

text \<open>A key that a record lacks gives the float \<open>nan\<close> in that row.\<close>

definition cell :: "string \<Rightarrow> raw_record \<Rightarrow> scalar" where
  "cell c record = (case map_of record c of None \<Rightarrow> JFloat NaN | Some v \<Rightarrow> v)"

definition getitem :: "raw_record list \<Rightarrow> string \<Rightarrow> exc + scalar list" where
  "getitem records c =
     (if c \<in> set (columns records) then Inr (map (cell c) records) else Inl (KeyError c))"

text \<open>
  \<open>pd.to_numeric(..., errors='coerce')\<close> on one cell: what does not parse is null. An
  integer up to \<open>2 ^ 53\<close> is the same number in an integer column and in a float column;
  a larger one is left to the parser, like a string or a boolean.
\<close>

definition to_numeric :: "env \<Rightarrow> scalar \<Rightarrow> num" where
  "to_numeric env v =
     (case v of
        JNull \<Rightarrow> NaN
      | JFloat x \<Rightarrow> x
      | JInt i \<Rightarrow> if \<bar>i\<bar> \<le> 2 ^ 53 then Fin (of_int i) else parse_number env v
      | _ \<Rightarrow> parse_number env v)"

text \<open>The coerced \<open>staticpressure\<close> of a record, as line 64 of the source leaves it.\<close>

definition coerced_pressure :: "env \<Rightarrow> raw_record \<Rightarrow> num" where
  "coerced_pressure env record = to_numeric env (cell ''staticpressure'' record)"

text \<open>
  A text column after \<open>astype(str)\<close>, and the text of one record in it: the cell of the
  record, seen in the column of all records.
\<close>

definition text_column :: "env \<Rightarrow> scalar list \<Rightarrow> string option list" where
  "text_column env column = map (astype_str env column) column"

definition text_cell :: "env \<Rightarrow> string \<Rightarrow> raw_record list \<Rightarrow> raw_record \<Rightarrow> string option" where
  "text_cell env c records record = astype_str env (map (cell c) records) (cell c record)"

text \<open>The \<open>.str\<close> methods of a column pass a null cell through.\<close>

definition str_strip :: "env \<Rightarrow> string option \<Rightarrow> string option" where
  "str_strip env = map_option (py_strip env)"

definition str_upper :: "env \<Rightarrow> string option \<Rightarrow> string option" where
  "str_upper env = map_option (py_upper env)"

definition str_title :: "env \<Rightarrow> string option \<Rightarrow> string option" where
  "str_title env = map_option (py_title env)"

definition sbind :: "exc + 'a \<Rightarrow> ('a \<Rightarrow> exc + 'b) \<Rightarrow> exc + 'b" where
  "sbind m f = (case m of Inl e \<Rightarrow> Inl e | Inr x \<Rightarrow> f x)"

definition column_order :: "string list" where
  "column_order =
     [''objectid'', ''assetid'', ''record_hash'',
      ''latitude'', ''longitude'', ''geo_cluster'', ''neighborhood'', ''servicearea'',
      ''lifecyclestatus'', ''is_active'', ''staticpressure'',
      ''pressure_category'', ''pressure_risk_score'', ''service_quality'',
      ''load_date'', ''load_timestamp'']"

text \<open>
  \<open>df.columns = df.columns.str.lower().str.strip()\<close> renames every label. The model covers
  the batches in which no two labels become one of the sixteen labels of \<open>column_order\<close>.
  For the others pandas hands back a sub-frame instead of a column at the repeated label:
  the code then raises at the first step that needs a column there (a repeated
  \<open>lifecyclestatus\<close>, \<open>staticpressure\<close>, ...), or, when the repeated label is only selected
  (\<open>objectid\<close>, \<open>assetid\<close>, \<open>load_date\<close>, \<open>load_timestamp\<close>), it returns a frame of more than
  sixteen columns. Neither is followed here: \<open>transform_data\<close> ends with \<open>DuplicateLabel\<close>,
  which marks the end of the model and is not an exception of the code.
\<close>

definition labels_at_rename :: "raw_record list \<Rightarrow> string list" where
  "labels_at_rename records =
     columns records @ filter (\<lambda>c. c \<notin> set (columns records)) [''load_date'', ''load_timestamp'']"

definition renamed_labels :: "env \<Rightarrow> raw_record list \<Rightarrow> string list" where
  "renamed_labels env records =
     map (\<lambda>c. py_strip env (py_lower env c)) (labels_at_rename records)"

definition repeated_label :: "env \<Rightarrow> raw_record list \<Rightarrow> string option" where
  "repeated_label env records =
     find (\<lambda>c. 1 < count_list (renamed_labels env records) c) column_order"

text \<open>The derived features, one definition for each numbered step of the source.\<close>

definition pressure_category_of :: "num \<Rightarrow> string option" where
  "pressure_category_of p =
     cut [NInf, Fin 20, Fin 40, Fin 60, PInf]
         [''INSUFFICIENT'', ''MARGINAL'', ''ADEQUATE'', ''EXCELLENT''] p"

definition is_active_of :: "string option \<Rightarrow> int" where
  "is_active_of status =
     (if isin status [''AB'', ''ABANDONED''] then 2
      else if isin status [''ACTIVE'', ''AC''] then 1 else 0)"

definition pressure_risk_score_of :: "bool \<Rightarrow> num \<Rightarrow> num \<Rightarrow> num" where
  "pressure_risk_score_of negative_zero max_pressure p =
     (let score = fsub (Fin 100) (fmul (fdiv_signed negative_zero p max_pressure) (Fin 100))
      in fround 2 (fillna (Fin 100) score))"

text \<open>The sum of two string columns and a text: null where one of the two is null.\<close>

definition geo_cluster_of :: "env \<Rightarrow> num \<Rightarrow> num \<Rightarrow> string option" where
  "geo_cluster_of env lat lon =
     (case (float_str env (fround 3 lat), float_str env (fround 3 lon)) of
        (Some a, Some b) \<Rightarrow> Some (a @ ''_'' @ b)
      | _ \<Rightarrow> None)"

text \<open>The five assignments to \<open>service_quality\<close>, in their order; a later one overwrites.\<close>

definition service_quality_of :: "int \<Rightarrow> num \<Rightarrow> string" where
  "service_quality_of active p =
     (let q0 = ''UNKNOWN'';
          q1 = (if active = 1 \<and> fge p (Fin 40) then ''HIGH'' else q0);
          q2 = (if active = 1 \<and> between p (Fin 20) (Fin 40) then ''MEDIUM'' else q1);
          q3 = (if active = 1 \<and> flt p (Fin 20) then ''LOW'' else q2);
          q4 = (if active = 0 then ''INACTIVE'' else q3)
      in q4)"

text \<open>
  The part of \<open>transform_data\<close> after the coercions: the arguments are the coerced columns,
  all of one length, and the result is the frame in \<open>column_order\<close>.
\<close>

definition derive ::
  "env \<Rightarrow> int option list \<Rightarrow> num list \<Rightarrow> num list \<Rightarrow> num list \<Rightarrow> num list \<Rightarrow>
   string option list \<Rightarrow> string option list \<Rightarrow> string option list \<Rightarrow> feature_record list" where
  "derive env c_objectid c_assetid c_staticpressure c_latitude c_longitude
          c_lifecyclestatus c_servicearea c_neighborhood =
     (let c_load_date = utc_date env;
          c_load_timestamp = utc_now env;
          n_lifecyclestatus = map (\<lambda>s. str_upper env (str_strip env s)) c_lifecyclestatus;
          n_servicearea = map (\<lambda>s. str_title env (str_strip env s)) c_servicearea;
          n_neighborhood = map (\<lambda>s. str_title env (str_strip env s)) c_neighborhood;
          c_pressure_category = map pressure_category_of c_staticpressure;
          c_is_active = map is_active_of n_lifecyclestatus;
          max_pressure = series_max c_staticpressure;
          negative_zero = negative_zero_max env c_staticpressure;
          c_pressure_risk_score =
            map (pressure_risk_score_of negative_zero max_pressure) c_staticpressure;
          c_geo_cluster = map2 (geo_cluster_of env) c_latitude c_longitude;
          c_service_quality = map2 service_quality_of c_is_active c_staticpressure;
          median = series_median c_staticpressure;
          f_staticpressure = map (fillna median) c_staticpressure;
          c_record_hash =
            map2 (\<lambda>oid (lat, lon). hash_row env oid lat lon) c_objectid (zip c_latitude c_longitude)
      in map (\<lambda>i.
           \<lparr> objectid = c_objectid ! i, assetid = c_assetid ! i, record_hash = c_record_hash ! i,
             latitude = c_latitude ! i, longitude = c_longitude ! i,
             geo_cluster = c_geo_cluster ! i, neighborhood = n_neighborhood ! i,
             servicearea = n_servicearea ! i, lifecyclestatus = n_lifecyclestatus ! i,
             is_active = c_is_active ! i, staticpressure = f_staticpressure ! i,
             pressure_category = c_pressure_category ! i,
             pressure_risk_score = c_pressure_risk_score ! i,
             service_quality = c_service_quality ! i,
             load_date = c_load_date, load_timestamp = c_load_timestamp \<rparr>)
           [0 ..< length c_objectid])"

definition transform_data :: "env \<Rightarrow> raw_record list \<Rightarrow> exc + frame" where
  "transform_data env valid_records =
     (if df_empty (Raw valid_records) then Inr (Raw valid_records)
      else
        sbind (getitem valid_records ''objectid'') (\<lambda>r_objectid.
        sbind (astype_Int64 (map (to_numeric env) r_objectid)) (\<lambda>c_objectid.
        sbind (getitem valid_records ''assetid'') (\<lambda>r_assetid.
        sbind (getitem valid_records ''staticpressure'') (\<lambda>r_staticpressure.
        sbind (getitem valid_records ''latitude'') (\<lambda>r_latitude.
        sbind (getitem valid_records ''longitude'') (\<lambda>r_longitude.
        sbind (getitem valid_records ''lifecyclestatus'') (\<lambda>r_lifecyclestatus.
        sbind (getitem valid_records ''servicearea'') (\<lambda>r_servicearea.
        sbind (getitem valid_records ''neighborhood'') (\<lambda>r_neighborhood.
          case repeated_label env valid_records of
            Some c \<Rightarrow> Inl (DuplicateLabel c)
          | None \<Rightarrow>
              Inr (Features
                (derive env c_objectid
                   (map (to_numeric env) r_assetid)
                   (map (to_numeric env) r_staticpressure)
                   (map (to_numeric env) r_latitude)
                   (map (to_numeric env) r_longitude)
                   (text_column env r_lifecyclestatus)
                   (text_column env r_servicearea)
                   (text_column env r_neighborhood)))))))))))))"

section \<open>storage.py\<close>

text \<open>
  The file system, as far as the pipeline touches it: the set of directories and the
  regular files with their contents, both keyed by the path as a string (paths are
  compared as they are written). A file holds the raw payload of the fetcher, parsed, or a
  Parquet dataset, or something that is neither. The store itself does not fail: no full
  disk, no missing permission.
\<close>

datatype content = Json "raw_record list" | Parquet "feature_record list" | Unreadable

record filesystem =
  dirs :: "string set"
  files :: "string \<rightharpoonup> content"

text \<open>\<open>strftime("%Y-%m-%d")\<close> of a date of the years 0 to 9999.\<close>

definition digit_char :: "nat \<Rightarrow> char" where
  "digit_char n = ''0123456789'' ! (n mod 10)"

definition strftime_ymd :: "date \<Rightarrow> string" where
  "strftime_ymd d =
     [digit_char (year d div 1000), digit_char (year d div 100), digit_char (year d div 10),
      digit_char (year d)]
     @ ''-'' @ [digit_char (month d div 10), digit_char (month d)]
     @ ''-'' @ [digit_char (day d div 10), digit_char (day d)]"

text \<open>\<open>os.path.join(a, b)\<close> on POSIX.\<close>

definition os_path_join :: "string \<Rightarrow> string \<Rightarrow> string" where
  "os_path_join a b =
     (if b \<noteq> [] \<and> hd b = CHR ''/'' then b
      else if a = [] \<or> last a = CHR ''/'' then a @ b
      else a @ ''/'' @ b)"

text \<open>The directories above a path: every non-empty part of it that ends before a slash.\<close>

fun parents_from :: "string \<Rightarrow> string \<Rightarrow> string list" where
  "parents_from seen [] = []"
| "parents_from seen (c # cs) =
     (if c = CHR ''/'' \<and> seen \<noteq> [] then [seen] else []) @ parents_from (seen @ [c]) cs"

definition parents :: "string \<Rightarrow> string list" where
  "parents path = parents_from [] path"

text \<open>
  \<open>os.makedirs(path, exist_ok=True)\<close>: from the top down, a directory that is there is
  left alone, one that is missing is made, and a regular file in the way raises
  (\<open>FileExistsError\<close> at the path itself, \<open>NotADirectoryError\<close> above it).
\<close>

fun mkdir_chain :: "filesystem \<Rightarrow> string list \<Rightarrow> exc + filesystem" where
  "mkdir_chain fs [] = Inr fs"
| "mkdir_chain fs (d # ds) =
     (if d \<in> dom (files fs)
      then Inl (if ds = [] then FileExistsError d else NotADirectoryError d)
      else mkdir_chain (fs\<lparr>dirs := insert d (dirs fs)\<rparr>) ds)"

definition makedirs :: "filesystem \<Rightarrow> string \<Rightarrow> exc + filesystem" where
  "makedirs fs path = mkdir_chain fs (parents path @ [path])"

text \<open>\<open>df.to_parquet(path, index=False)\<close>: the file at the path is created or replaced.\<close>

definition to_parquet ::
  "feature_record list \<Rightarrow> filesystem \<Rightarrow> string \<Rightarrow> (exc + unit) \<times> filesystem" where
  "to_parquet rows fs path =
     (if path \<in> dirs fs then (Inl (IsADirectoryError path), fs)
      else (Inr (), fs\<lparr>files := (files fs)(path \<mapsto> Parquet rows)\<rparr>))"

text \<open>
  \<open>save_parquet\<close>. On a frame that was never transformed, \<open>df["load_date"]\<close> is a missing
  column or a column of JSON values, which have no \<open>strftime\<close>.
\<close>

definition save_parquet :: "filesystem \<Rightarrow> frame \<Rightarrow> string \<Rightarrow> (exc + unit) \<times> filesystem" where
  "save_parquet fs df processed_dir =
     (case df of
        Raw records \<Rightarrow>
          (if ''load_date'' \<in> set (columns records) then (Inl AttributeError, fs)
           else (Inl (KeyError ''load_date''), fs))
      | Features [] \<Rightarrow> (Inl IndexError, fs)
      | Features (first # rest) \<Rightarrow>
          (let date = strftime_ymd (load_date first);
               path = os_path_join processed_dir (''load_date='' @ date)
           in case makedirs fs path of
                Inl e \<Rightarrow> (Inl e, fs)
              | Inr fs1 \<Rightarrow>
                  to_parquet (first # rest) fs1 (os_path_join path ''firehydrants.parquet'')))"

section \<open>ingestion.py, alerts.py, run\_hydrant\_pipeline.py\<close>

text \<open>
  The calls to the module loggers print lines and change nothing else, so they are not
  part of the state. The alert sink is: \<open>send_alert\<close> logs the message with the prefix
  \<open>ALERT:\<close>, and the model keeps these lines.
\<close>

record world =
  disk :: filesystem
  alerts :: "string list"

definition send_alert :: "string \<Rightarrow> world \<Rightarrow> world" where
  "send_alert message w = w\<lparr>alerts := alerts w @ [''ALERT: '' @ message]\<rparr>"

text \<open>
  What a run takes from outside: the environment of \<open>transform_data\<close>, the outcome of the
  HTTP request (the body, as the content the raw file will have, or the exception of
  \<open>requests\<close>), the time stamp of the file name, and the text \<open>str(e)\<close> of an exception
  that a library raised.
\<close>

record setting =
  lib :: env
  api_response :: "exc + content"
  fetch_stamp :: string
  exc_text :: "exc \<Rightarrow> string"

definition DATA_DIR :: string where
  "DATA_DIR = ''data/raw''"

text \<open>
  \<open>fetch_data\<close>: every \<open>except\<close> clause logs and raises again, so a failed request or a
  failed write leaves as the exception it was.
\<close>

definition fetch_data :: "setting \<Rightarrow> world \<Rightarrow> (exc + string) \<times> world" where
  "fetch_data cfg w =
     (case api_response cfg of
        Inl e \<Rightarrow> (Inl e, w)
      | Inr body \<Rightarrow>
          (let filename = DATA_DIR @ ''/firehydrants_'' @ fetch_stamp cfg @ ''.json''
           in if DATA_DIR \<in> dom (files (disk w)) then (Inl (NotADirectoryError filename), w)
              else if DATA_DIR \<notin> dirs (disk w) then (Inl (FileNotFoundError filename), w)
              else if filename \<in> dirs (disk w) then (Inl (IsADirectoryError filename), w)
              else (Inr filename,
                    w\<lparr>disk := (disk w)\<lparr>files := (files (disk w))(filename \<mapsto> body)\<rparr>\<rparr>)))"

text \<open>\<open>open(file_path)\<close> and \<open>json.load\<close> on the modelled file system.\<close>

definition read_json :: "filesystem \<Rightarrow> string \<Rightarrow> exc + raw_record list" where
  "read_json fs file_path =
     (case files fs file_path of
        None \<Rightarrow>
          (if file_path \<in> dirs fs then Inl (IsADirectoryError file_path)
           else Inl (FileNotFoundError file_path))
      | Some (Json data) \<Rightarrow> Inr data
      | Some other \<Rightarrow> Inl JSONDecodeError)"

definition str_exc :: "setting \<Rightarrow> exc \<Rightarrow> string" where
  "str_exc cfg e = (case e of ValueError message \<Rightarrow> message | _ \<Rightarrow> exc_text cfg e)"

text \<open>The \<open>except Exception\<close> clause of \<open>run_pipeline\<close>: alert, then raise again.\<close>

definition pipeline_failed :: "setting \<Rightarrow> exc \<Rightarrow> world \<Rightarrow> (exc + unit) \<times> world" where
  "pipeline_failed cfg e w = (Inl e, send_alert (''Hydrant pipeline failed: '' @ str_exc cfg e) w)"

definition run_pipeline :: "setting \<Rightarrow> world \<Rightarrow> (exc + unit) \<times> world" where
  "run_pipeline cfg w =
     (case fetch_data cfg w of
        (Inl e, w1) \<Rightarrow> pipeline_failed cfg e w1
      | (Inr raw_file, w1) \<Rightarrow>
          (case validate_data (read_json (disk w1)) raw_file of
             Inl e \<Rightarrow> pipeline_failed cfg e w1
           | Inr (valid, invalid_count) \<Rightarrow>
               if valid = []
               then pipeline_failed cfg (ValueError ''No valid data to process after validation.'') w1
               else
                 (case transform_data (lib cfg) valid of
                    Inl e \<Rightarrow> pipeline_failed cfg e w1
                  | Inr df \<Rightarrow>
                      if df_empty df
                      then pipeline_failed cfg
                             (ValueError ''transform_data returned empty DataFrame; aborting pipeline.'') w1
                      else
                        (case save_parquet (disk w1) df ''data/processed'' of
                           (Inl e, fs2) \<Rightarrow> pipeline_failed cfg e (w1\<lparr>disk := fs2\<rparr>)
                         | (Inr u, fs2) \<Rightarrow> (Inr (), w1\<lparr>disk := fs2\<rparr>)))))"

section \<open>Sample data\<close>

text \<open>A complete record as the source API delivers it, and one without \<open>longitude\<close>.\<close>

definition hydrant :: "string \<Rightarrow> string \<Rightarrow> string \<Rightarrow> raw_record" where
  "hydrant oid status pressure =
     [(''objectid'', JStr oid), (''assetid'', JStr ''7''), (''lifecyclestatus'', JStr status),
      (''servicearea'', JStr ''central''), (''staticpressure'', JStr pressure),
      (''latitude'', JStr ''39.1234''), (''longitude'', JStr ''-84.5678''),
      (''neighborhood'', JStr ''over the rhine'')]"

definition no_longitude :: raw_record where
  "no_longitude =
     [(''objectid'', JStr ''2''), (''assetid'', JStr ''8''), (''lifecyclestatus'', JStr ''AC''),
      (''servicearea'', JStr ''east''), (''staticpressure'', JStr ''55''),
      (''latitude'', JStr ''39.2''), (''neighborhood'', JStr ''clifton'')]"

text \<open>
  An environment for the examples: a parser that knows the numerals the examples use, the
  \<open>astype(str)\<close> of pandas 1 and 2 for a column of strings and None (the examples hold no
  other value; one they do not hold is given the text of a missing key, nan), and the
  ASCII text functions. The text of a number and the hash of a row are not spelled out.
\<close>

definition sample_env :: env where
  "sample_env =
     \<lparr> parse_number =
         (\<lambda>v. case v of
                JStr s \<Rightarrow>
                  (case map_of [(''0'', 0), (''1'', 1), (''3'', 3), (''7'', 7), (''8'', 8),
                                (''10'', 10), (''20'', 20), (''25'', 25), (''30'', 30),
                                (''40'', 40), (''45'', 45), (''60'', 60), (''87'', 87),
                                (''93'', 93), (''160'', 160)] s of
                     Some x \<Rightarrow> Fin x
                   | None \<Rightarrow> NaN)
              | _ \<Rightarrow> NaN),
       astype_str =
         (\<lambda>column v. case v of JStr s \<Rightarrow> Some s | JNull \<Rightarrow> Some ''None'' | _ \<Rightarrow> Some ''nan''),
       float_str = (\<lambda>x. if x = NaN then Some ''nan'' else Some ''number''),
       py_strip = ascii_strip, py_upper = ascii_upper, py_lower = ascii_lower,
       py_title = ascii_title,
       negative_zero_max = (\<lambda>column. False),
       hash_row = (\<lambda>oid lat lon. ''hash''),
       utc_date = \<lparr> year = 2025, month = 1, day = 12 \<rparr>,
       utc_now = 0 \<rparr>"

text \<open>
  The same with the \<open>astype(str)\<close> of pandas 3, where a missing value stays missing.
\<close>

definition pandas3_env :: env where
  "pandas3_env =
     sample_env \<lparr> astype_str := (\<lambda>column v. case v of JStr s \<Rightarrow> Some s | _ \<Rightarrow> None) \<rparr>"

text \<open>The same on another day.\<close>

definition autumn_env :: env where
  "autumn_env = sample_env \<lparr> utc_date := \<lparr> year = 2024, month = 11, day = 3 \<rparr> \<rparr>"

text \<open>The rows of a run that produced features.\<close>

definition output_rows :: "exc + frame \<Rightarrow> feature_record list" where
  "output_rows res = (case res of Inr (Features rows) \<Rightarrow> rows | _ \<Rightarrow> [])"

text \<open>A record whose text fields and pressure are JSON null.\<close>

definition null_fields :: raw_record where
  "null_fields =
     [(''objectid'', JStr ''8''), (''assetid'', JNull), (''lifecyclestatus'', JNull),
      (''servicearea'', JNull), (''staticpressure'', JNull),
      (''latitude'', JNull), (''longitude'', JNull), (''neighborhood'', JNull)]"

definition sample_batch :: "raw_record list" where
  "sample_batch =
     [hydrant ''1'' ''Active'' ''45'', hydrant ''3'' '' ab '' ''60'', hydrant ''7'' ''AC'' ''30'',
      hydrant ''8'' ''Retired'' ''n/a'', hydrant ''10'' ''active'' ''10'',
      hydrant ''20'' ''Abandoned'' ''25'']"

definition null_batch :: "raw_record list" where
  "null_batch = [hydrant ''1'' ''Active'' ''n/a'', null_fields]"

text \<open>
  A batch whose scores, computed exactly, end in a 5 at the third decimal: 45.625 and
  41.875.
\<close>

definition rounding_batch :: "raw_record list" where
  "rounding_batch =
     [hydrant ''1'' ''Active'' ''87'', hydrant ''3'' ''Active'' ''93'',
      hydrant ''7'' ''Active'' ''160'']"

text \<open>A setting whose request returns an empty array, and a world with the data directories.\<close>

definition empty_payload_setting :: setting where
  "empty_payload_setting =
     \<lparr> lib = sample_env, api_response = Inr (Json []),
       fetch_stamp = ''20250112T143000Z'', exc_text = (\<lambda>e. ''error'') \<rparr>"

definition fresh_world :: world where
  "fresh_world =
     \<lparr> disk = \<lparr> dirs = {''data'', ''data/raw'', ''data/processed''}, files = Map.empty \<rparr>,
       alerts = [] \<rparr>"

section \<open>Numeric columns: proofs\<close>

lemma rint_of_int: "rint (of_int z) = z"
  by (simp add: rint_def)

lemma binary64_not_nan: "binary64 x \<noteq> NaN"
  by (simp add: binary64_def Let_def signed_inf_def)

text \<open>A number with at most 53 significant bits and an exponent in range is not rounded.\<close>

lemma binary64_exact:
  assumes x: "x = of_int m * 2 powr of_int k" and m: "\<bar>m\<bar> < 2 ^ 53"
    and k: "- 1074 \<le> k" "k \<le> 971"
  shows "binary64 x = Fin x"
proof (cases "m = 0")
  case True
  then show ?thesis by (simp add: x binary64_def)
next
  case False
  then have x0: "x \<noteq> 0" by (simp add: x)
  define e where "e = max \<lfloor>log 2 \<bar>x\<bar>\<rfloor> (- 1022)"
  have absx: "\<bar>x\<bar> = of_int \<bar>m\<bar> * 2 powr of_int k"
    by (simp add: x abs_mult)
  have "of_int \<bar>m\<bar> < (2::real) ^ 53" using m by (metis of_int_less_iff of_int_numeral of_int_power)
  then have lt: "\<bar>x\<bar> < 2 powr of_int (53 + k)"
    unfolding absx by (simp add: powr_add powr_realpow [symmetric] del: of_int_abs)
  have "log 2 \<bar>x\<bar> < of_int (53 + k)"
    using lt x0 by (subst log_less_iff) auto
  then have "\<lfloor>log 2 \<bar>x\<bar>\<rfloor> < 53 + k" by (simp add: floor_less_iff)
  then have e: "e \<le> k + 52" using k by (simp add: e_def)
  define j where "j = nat (k + 52 - e)"
  have "x / 2 powr of_int (e - 52) = of_int m * 2 powr (of_int k - of_int (e - 52))"
    by (simp add: x powr_diff)
  also have "of_int k - of_int (e - 52) = (of_int (int j) :: real)"
    using e by (simp add: j_def)
  also have "(2::real) powr of_int (int j) = 2 ^ j"
    by (simp add: powr_realpow)
  finally have q: "x / 2 powr of_int (e - 52) = of_int (m * 2 ^ j)" by simp
  have r: "of_int (rint (x / 2 powr of_int (e - 52))) * 2 powr of_int (e - 52) = x"
    unfolding q rint_of_int using q by (simp add: field_simps)
  have "\<bar>x\<bar> < 2 powr of_int (53 + k)" by (rule lt)
  also have "\<dots> \<le> 2 powr of_int (1024::int)"
  proof (rule powr_mono)
    show "real_of_int (53 + k) \<le> real_of_int 1024" using k by linarith
  qed simp
  also have "\<dots> = overflow_threshold"
    using powr_realpow [of "2::real" 1024] by (simp add: overflow_threshold_def)
  finally have small: "\<not> overflow_threshold \<le> \<bar>x\<bar>" by simp
  have "binary64 x =
      (if overflow_threshold
            \<le> \<bar>of_int (rint (x / 2 powr of_int (e - 52))) * 2 powr of_int (e - 52)\<bar>
       then signed_inf (0 < x)
       else Fin (of_int (rint (x / 2 powr of_int (e - 52))) * 2 powr of_int (e - 52)))"
    using x0 by (simp only: binary64_def Let_def e_def if_False)
  then show ?thesis
    using small by (simp only: r if_False)
qed

lemma binary64_int: "\<bar>n\<bar> < 2 ^ 53 \<Longrightarrow> binary64 (of_int n) = Fin (of_int n)"
  using binary64_exact [of "of_int n" n 0] by simp

lemma binary64_numeral:
  "numeral n < (2::int) ^ 53 \<Longrightarrow> binary64 (numeral n) = Fin (numeral n)"
  using binary64_int [of "numeral n"] by simp

lemma binary64_dyadic:
  "\<bar>n\<bar> < 2 ^ 53 \<Longrightarrow> j \<le> 1074 \<Longrightarrow> binary64 (of_int n / 2 ^ j) = Fin (of_int n / 2 ^ j)"
  using binary64_exact [of "of_int n / 2 ^ j" n "- int j"]
  by (simp add: powr_minus powr_realpow field_simps)

text \<open>A number in the binade of exponent \<open>e\<close> is rounded to a multiple of \<open>2 ^ (e - 52)\<close>.\<close>

lemma binary64_binade:
  assumes "2 powr of_int e \<le> \<bar>x\<bar>" and "\<bar>x\<bar> < 2 powr of_int (e + 1)" and "- 1022 \<le> e"
  shows "binary64 x =
      (if overflow_threshold
            \<le> \<bar>of_int (rint (x / 2 powr of_int (e - 52))) * 2 powr of_int (e - 52)\<bar>
       then signed_inf (0 < x)
       else Fin (of_int (rint (x / 2 powr of_int (e - 52))) * 2 powr of_int (e - 52)))"
proof -
  have pos: "0 < \<bar>x\<bar>" using assms(1) by (smt (verit) powr_gt_zero)
  then have x0: "x \<noteq> 0" by simp
  have "\<lfloor>log 2 \<bar>x\<bar>\<rfloor> = e"
    using assms(1,2) pos by (subst floor_log_eq_powr_iff) (simp_all add: add.commute)
  then have "max \<lfloor>log 2 \<bar>x\<bar>\<rfloor> (- 1022) = e" using assms(3) by simp
  then show ?thesis
    using x0 by (simp only: binary64_def Let_def if_False)
qed

lemma small_enough: "\<bar>r\<bar> < 2 ^ 64 \<Longrightarrow> \<not> overflow_threshold \<le> \<bar>r\<bar>"
proof -
  have "(2::real) ^ 64 \<le> 2 ^ 1024" by (rule power_increasing) simp_all
  then show "\<bar>r\<bar> < 2 ^ 64 \<Longrightarrow> \<not> overflow_threshold \<le> \<bar>r\<bar>"
    unfolding overflow_threshold_def by linarith
qed

lemma rint_near: "\<bar>of_int (rint y) - y\<bar> \<le> 1"
  by (simp add: rint_def Let_def)

lemma binary64_scaled:
  assumes lo: "2 ^ 52 \<le> \<bar>x\<bar> * 2 ^ j" and hi: "\<bar>x\<bar> * 2 ^ j < 2 ^ 53" and j: "j \<le> 1074"
  shows "binary64 x = Fin (of_int (rint (x * 2 ^ j)) / 2 ^ j)"
proof -
  define e where "e = 52 - int j"
  have pj: "(2::real) powr of_int (- int j) = 1 / 2 ^ j"
    by (simp add: powr_minus powr_realpow field_simps)
  have pe: "(2::real) powr of_int e = 2 ^ 52 / 2 ^ j"
    using pj by (simp add: e_def powr_diff powr_minus field_simps)
  have pe1: "(2::real) powr of_int (e + 1) = 2 ^ 53 / 2 ^ j"
    using pe by (simp add: powr_add)
  have pu: "(2::real) powr of_int (e - 52) = 1 / 2 ^ j"
    using pj by (simp add: e_def)
  have a1: "2 powr of_int e \<le> \<bar>x\<bar>" unfolding pe using lo by (simp add: field_simps)
  have a2: "\<bar>x\<bar> < 2 powr of_int (e + 1)" unfolding pe1 using hi by (simp add: field_simps)
  have a3: "- 1022 \<le> e" using j by (simp add: e_def)
  have "\<bar>of_int (rint (x * 2 ^ j))\<bar> \<le> \<bar>x * 2 ^ j\<bar> + 1"
    using rint_near [of "x * 2 ^ j"] by linarith
  also have "\<dots> < 2 ^ 53 + 1" using hi by (simp add: abs_mult)
  finally have "\<bar>real_of_int (rint (x * 2 ^ j)) / 2 ^ j\<bar> < (2 ^ 53 + 1) / 2 ^ j"
    by (simp add: divide_strict_right_mono)
  also have "\<dots> \<le> (2 ^ 53 + 1) / 1"
    by (rule divide_left_mono) simp_all
  also have "\<dots> = 2 ^ 53 + 1" by simp
  also have "\<dots> < (2::real) ^ 64" by simp
  finally have small: "\<not> overflow_threshold \<le> \<bar>real_of_int (rint (x * 2 ^ j)) / 2 ^ j\<bar>"
    by (rule small_enough)
  show ?thesis
    using binary64_binade [OF a1 a2 a3] small unfolding pu by simp
qed

lemma fround_exact:
  assumes "\<bar>n\<bar> < 2 ^ 46"
  shows "fround 2 (Fin (of_int n)) = Fin (of_int n)"
proof -
  have "\<bar>n * 100\<bar> < 2 ^ 46 * 2 ^ 7"
    unfolding abs_mult using assms by (intro mult_strict_mono) simp_all
  then have b: "\<bar>n * 100\<bar> < 2 ^ 53" by simp
  have m: "binary64 (of_int n * 100) = Fin (of_int (n * 100))"
    using binary64_int [OF b] by simp
  have d: "binary64 (of_int (n * 100) / 100) = Fin (of_int n)"
    using binary64_int [of n] assms by simp
  have r: "rint (of_int n * 100) = n * 100"
    using rint_of_int [of "n * 100"] by simp
  show ?thesis
    using m d by (simp add: fround_def frint_def r)
qed

lemma fround_100: "fround 2 (Fin 100) = Fin 100"
  using fround_exact [of 100] by simp

lemma fround_NaN: "fround d NaN = NaN"
  by (simp add: fround_def frint_def)

lemma fdiv_signed_NaN: "fdiv_signed z NaN m = NaN"
  by (simp add: fdiv_signed_def)

lemma fmul_100_not_nan: "q \<noteq> NaN \<Longrightarrow> fmul q (Fin 100) \<noteq> NaN"
  by (cases q) (simp_all add: binary64_not_nan signed_inf_def)

lemma fsub_100_not_nan: "t \<noteq> NaN \<Longrightarrow> fsub (Fin 100) t \<noteq> NaN"
  by (cases t) (simp_all add: fsub_def binary64_not_nan)

lemma fdiv_nan_iff:
  "fdiv p m = NaN \<longleftrightarrow>
     p = NaN \<or> m = NaN \<or> (p = Fin 0 \<and> m = Fin 0) \<or> (p \<in> {NInf, PInf} \<and> m \<in> {NInf, PInf})"
  by (cases p; cases m) (auto simp: binary64_not_nan signed_inf_def)

lemma fneg_nan_iff: "fneg a = NaN \<longleftrightarrow> a = NaN"
  by (cases a) simp_all

lemma fdiv_signed_nan_iff:
  "fdiv_signed z p m = NaN \<longleftrightarrow>
     p = NaN \<or> m = NaN \<or> (p = Fin 0 \<and> m = Fin 0) \<or> (p \<in> {NInf, PInf} \<and> m \<in> {NInf, PInf})"
  by (simp add: fdiv_signed_def fneg_nan_iff fdiv_nan_iff)

section \<open>Validation: proofs\<close>

lemma validate_cols_iff:
  "validate_cols cols record \<longleftrightarrow> (\<forall>c \<in> set cols. c \<in> fst ` set record)"
  by (induction cols) auto

lemma validate_iff:
  "validate record \<longleftrightarrow> (\<forall>c \<in> set REQUIRED_COLS. c \<in> fst ` set record)"
  by (simp add: validate_def validate_cols_iff)

lemma validate_loop_eq:
  "validate_loop data valid_records invalid_count =
     (valid_records @ filter validate data,
      invalid_count + int (length (filter (\<lambda>r. \<not> validate r) data)))"
  by (induction data arbitrary: valid_records invalid_count) auto

text \<open>
  C2. For a payload \<open>data\<close>, \<open>validate_data\<close> returns the records that have every one of
  the eight required names as a key, whatever the values, in the order of the input, and
  the number of the other records; the two add up to the length of the input.
\<close>

theorem validate_data_partition:
  assumes "load_json file_path = Inr data"
  shows "\<exists>valid_records invalid_count.
           validate_data load_json file_path = Inr (valid_records, invalid_count)
         \<and> valid_records =
             filter (\<lambda>r. \<forall>c \<in> set [''objectid'', ''assetid'', ''lifecyclestatus'', ''servicearea'',
                                     ''staticpressure'', ''latitude'', ''longitude'', ''neighborhood''].
                          c \<in> fst ` set r) data
         \<and> subseq valid_records data
         \<and> invalid_count = int (length data) - int (length valid_records)
         \<and> invalid_count = int (length (filter (\<lambda>r. \<not> validate r) data))
         \<and> int (length valid_records) + invalid_count = int (length data)"
proof -
  let ?ok = "\<lambda>r. \<forall>c \<in> set [''objectid'', ''assetid'', ''lifecyclestatus'', ''servicearea'',
                                ''staticpressure'', ''latitude'', ''longitude'', ''neighborhood''].
                     c \<in> fst ` set r"
  have ok: "validate = ?ok"
    by (rule ext) (simp only: validate_iff REQUIRED_COLS_def)
  have part: "int (length (filter validate data))
      + int (length (filter (\<lambda>r. \<not> validate r) data)) = int (length data)"
    using sum_length_filter_compl [of validate data] by linarith
  have run: "validate_data load_json file_path =
      Inr (filter validate data, int (length (filter (\<lambda>r. \<not> validate r) data)))"
    using assms by (simp add: validate_data_def validate_loop_eq)
  have "validate_data load_json file_path =
          Inr (filter validate data, int (length (filter (\<lambda>r. \<not> validate r) data)))
      \<and> filter validate data = filter ?ok data
      \<and> subseq (filter validate data) data
      \<and> int (length (filter (\<lambda>r. \<not> validate r) data))
          = int (length data) - int (length (filter validate data))
      \<and> int (length (filter (\<lambda>r. \<not> validate r) data))
          = int (length (filter (\<lambda>r. \<not> validate r) data))
      \<and> int (length (filter validate data))
          + int (length (filter (\<lambda>r. \<not> validate r) data)) = int (length data)"
    using part run by (simp only: ok [symmetric] subseq_filter_left simp_thms)
  then show ?thesis by blast
qed

theorem validate_data_partition_witness:
  "(\<lambda>p. Inr [hydrant ''1'' ''Active'' ''30'', no_longitude, hydrant ''3'' ''ab'' ''x''])
       ''data/raw/firehydrants.json''
     = (Inr [hydrant ''1'' ''Active'' ''30'', no_longitude, hydrant ''3'' ''ab'' ''x''] :: exc + raw_record list)
   \<and> validate_data (\<lambda>p. Inr [hydrant ''1'' ''Active'' ''30'', no_longitude, hydrant ''3'' ''ab'' ''x''])
       ''data/raw/firehydrants.json''
     = Inr ([hydrant ''1'' ''Active'' ''30'', hydrant ''3'' ''ab'' ''x''], 1)"
  using validate_data_partition
    [of "\<lambda>p. Inr [hydrant ''1'' ''Active'' ''30'', no_longitude, hydrant ''3'' ''ab'' ''x'']"
        "''data/raw/firehydrants.json''"
        "[hydrant ''1'' ''Active'' ''30'', no_longitude, hydrant ''3'' ''ab'' ''x'']"]
  by (simp add: hydrant_def no_longitude_def)

section \<open>Transformation: proofs\<close>

lemmas text_defs = ascii_upper_def ascii_strip_def is_space_def upper_char_def lower_char_def
  is_lower_def is_upper_def ascii_lowercase_def ascii_uppercase_def ascii_title_def ascii_lower_def
  str_strip_def str_upper_def str_title_def isin_def

lemmas sample_defs = sample_env_def sample_batch_def null_batch_def hydrant_def null_fields_def
  no_longitude_def

lemma sbind_Inr: "sbind m f = Inr y \<Longrightarrow> \<exists>x. m = Inr x \<and> f x = Inr y"
  by (cases m) (simp_all add: sbind_def)

lemma getitem_Inr: "getitem records c = Inr xs \<Longrightarrow> xs = map (cell c) records"
  by (simp add: getitem_def split: if_splits)

lemma astype_Int64_length: "astype_Int64 xs = Inr ys \<Longrightarrow> length ys = length xs"
  by (induction xs arbitrary: ys) (auto split: sum.splits)

lemma transform_data_Features:
  assumes "transform_data env recs = Inr (Features rows)"
  shows "\<exists>oids. astype_Int64 (map (\<lambda>r. to_numeric env (cell ''objectid'' r)) recs) = Inr oids
     \<and> rows = derive env oids
          (map (\<lambda>r. to_numeric env (cell ''assetid'' r)) recs)
          (map (coerced_pressure env) recs)
          (map (\<lambda>r. to_numeric env (cell ''latitude'' r)) recs)
          (map (\<lambda>r. to_numeric env (cell ''longitude'' r)) recs)
          (text_column env (map (cell ''lifecyclestatus'') recs))
          (text_column env (map (cell ''servicearea'') recs))
          (text_column env (map (cell ''neighborhood'') recs))"
  using assms unfolding transform_data_def coerced_pressure_def [abs_def]
  by (auto split: if_splits option.splits dest!: sbind_Inr getitem_Inr simp: comp_def)

lemma transform_data_ok:
  assumes "recs \<noteq> []" and "set REQUIRED_COLS \<subseteq> set (columns recs)"
    and "astype_Int64 (map (\<lambda>r. to_numeric env (cell ''objectid'' r)) recs) = Inr oids"
    and "repeated_label env recs = None"
  shows "transform_data env recs = Inr (Features (derive env oids
          (map (\<lambda>r. to_numeric env (cell ''assetid'' r)) recs)
          (map (coerced_pressure env) recs)
          (map (\<lambda>r. to_numeric env (cell ''latitude'' r)) recs)
          (map (\<lambda>r. to_numeric env (cell ''longitude'' r)) recs)
          (text_column env (map (cell ''lifecyclestatus'') recs))
          (text_column env (map (cell ''servicearea'') recs))
          (text_column env (map (cell ''neighborhood'') recs))))"
proof -
  have cols: "columns recs \<noteq> []" "\<And>c. c \<in> set REQUIRED_COLS \<Longrightarrow> c \<in> set (columns recs)"
    using assms(2) by (auto simp: REQUIRED_COLS_def)
  show ?thesis
    unfolding transform_data_def coerced_pressure_def [abs_def]
    using assms(1,3,4) cols
    by (simp add: sbind_def getitem_def REQUIRED_COLS_def comp_def)
qed

lemma derive_length:
  "length (derive env oids a p la lo ls sa nb) = length oids"
  by (simp add: derive_def Let_def)

lemma text_column_nth:
  "i < length recs \<Longrightarrow> text_column env (map (cell c) recs) ! i = text_cell env c recs (recs ! i)"
  by (simp add: text_column_def text_cell_def)

lemma text_column_length: "length (text_column env column) = length column"
  by (simp add: text_column_def)

lemma transform_data_row:
  assumes "transform_data env recs = Inr (Features rows)" and "i < length recs"
  shows "length rows = length recs"
    and "lifecyclestatus (rows ! i)
           = map_option (\<lambda>t. py_upper env (py_strip env t))
               (text_cell env ''lifecyclestatus'' recs (recs ! i))"
    and "servicearea (rows ! i)
           = map_option (\<lambda>t. py_title env (py_strip env t))
               (text_cell env ''servicearea'' recs (recs ! i))"
    and "neighborhood (rows ! i)
           = map_option (\<lambda>t. py_title env (py_strip env t))
               (text_cell env ''neighborhood'' recs (recs ! i))"
    and "is_active (rows ! i) = is_active_of (lifecyclestatus (rows ! i))"
    and "staticpressure (rows ! i)
           = fillna (series_median (map (coerced_pressure env) recs)) (coerced_pressure env (recs ! i))"
    and "pressure_category (rows ! i) = pressure_category_of (coerced_pressure env (recs ! i))"
    and "pressure_risk_score (rows ! i)
           = pressure_risk_score_of (negative_zero_max env (map (coerced_pressure env) recs))
               (series_max (map (coerced_pressure env) recs)) (coerced_pressure env (recs ! i))"
    and "service_quality (rows ! i)
           = service_quality_of (is_active (rows ! i)) (coerced_pressure env (recs ! i))"
    and "load_date (rows ! i) = utc_date env"
proof -
  from transform_data_Features [OF assms(1)] obtain oids where
    oids: "astype_Int64 (map (\<lambda>r. to_numeric env (cell ''objectid'' r)) recs) = Inr oids"
    and rows: "rows = derive env oids
          (map (\<lambda>r. to_numeric env (cell ''assetid'' r)) recs)
          (map (coerced_pressure env) recs)
          (map (\<lambda>r. to_numeric env (cell ''latitude'' r)) recs)
          (map (\<lambda>r. to_numeric env (cell ''longitude'' r)) recs)
          (text_column env (map (cell ''lifecyclestatus'') recs))
          (text_column env (map (cell ''servicearea'') recs))
          (text_column env (map (cell ''neighborhood'') recs))"
    by blast
  have len: "length oids = length recs"
    using astype_Int64_length [OF oids] by simp
  show "length rows = length recs"
    by (simp add: rows derive_length len)
  show "lifecyclestatus (rows ! i)
           = map_option (\<lambda>t. py_upper env (py_strip env t))
               (text_cell env ''lifecyclestatus'' recs (recs ! i))"
    and "servicearea (rows ! i)
           = map_option (\<lambda>t. py_title env (py_strip env t))
               (text_cell env ''servicearea'' recs (recs ! i))"
    and "neighborhood (rows ! i)
           = map_option (\<lambda>t. py_title env (py_strip env t))
               (text_cell env ''neighborhood'' recs (recs ! i))"
    and "is_active (rows ! i) = is_active_of (lifecyclestatus (rows ! i))"
    and "staticpressure (rows ! i)
           = fillna (series_median (map (coerced_pressure env) recs)) (coerced_pressure env (recs ! i))"
    and "pressure_category (rows ! i) = pressure_category_of (coerced_pressure env (recs ! i))"
    and "pressure_risk_score (rows ! i)
           = pressure_risk_score_of (negative_zero_max env (map (coerced_pressure env) recs))
               (series_max (map (coerced_pressure env) recs)) (coerced_pressure env (recs ! i))"
    and "service_quality (rows ! i)
           = service_quality_of (is_active (rows ! i)) (coerced_pressure env (recs ! i))"
    and "load_date (rows ! i) = utc_date env"
    using assms(2) len
    by (simp_all add: rows derive_def Let_def text_column_nth text_column_length
        str_upper_def str_strip_def str_title_def option.map_comp comp_def)
qed

lemma pressure_category_of_cases:
  "pressure_category_of p =
     (case p of
        NaN \<Rightarrow> None
      | NInf \<Rightarrow> None
      | Fin x \<Rightarrow> Some (if x \<le> 20 then ''INSUFFICIENT'' else if x \<le> 40 then ''MARGINAL''
                       else if x \<le> 60 then ''ADEQUATE'' else ''EXCELLENT'')
      | PInf \<Rightarrow> Some ''EXCELLENT'')"
  by (cases p) (auto simp: pressure_category_of_def fle_def)

lemma service_quality_of_cases:
  "service_quality_of a p =
     (if a = 0 then ''INACTIVE''
      else if a = 1 then
        (case p of
           NaN \<Rightarrow> ''UNKNOWN''
         | NInf \<Rightarrow> ''LOW''
         | Fin x \<Rightarrow> if x < 20 then ''LOW'' else if x \<le> 40 then ''MEDIUM'' else ''HIGH''
         | PInf \<Rightarrow> ''HIGH'')
      else ''UNKNOWN'')"
  by (cases p) (auto simp: service_quality_of_def fle_def fge_def between_def Let_def)

lemma is_active_of_range: "is_active_of s \<in> {0, 1, 2}"
  by (simp add: is_active_of_def)

lemma is_active_of_cases:
  "is_active_of s =
     (if s \<in> {Some ''AB'', Some ''ABANDONED''} then 2
      else if s \<in> {Some ''ACTIVE'', Some ''AC''} then 1 else 0)"
  by (cases s) (simp_all add: is_active_of_def isin_def)

lemma is_ascii_strip: "is_ascii s \<Longrightarrow> is_ascii (ascii_strip s)"
  by (auto simp: is_ascii_def ascii_strip_def list_all_iff dest!: set_dropWhileD)

lemma ascii_status:
  assumes "ascii_conform env" and "is_ascii s"
  shows "py_upper env (py_strip env s) = ascii_upper (ascii_strip s)"
  using assms is_ascii_strip [OF assms(2)] by (simp add: ascii_conform_def)

lemma ascii_name:
  assumes "ascii_conform env" and "is_ascii s"
  shows "py_title env (py_strip env s) = ascii_title (ascii_strip s)"
  using assms is_ascii_strip [OF assms(2)] by (simp add: ascii_conform_def)

lemma text_cell_string:
  assumes "strings_kept env" and "cell c (recs ! i) = JStr s"
  shows "text_cell env c recs (recs ! i) = Some s"
  using assms by (simp add: text_cell_def strings_kept_def)

lemma columns_same_keys:
  assumes "recs \<noteq> []" and "\<forall>r \<in> set recs. map fst r = ks" and "distinct ks"
  shows "columns recs = ks"
proof -
  from assms(1) obtain r rs where recs: "recs = r # rs" by (cases recs) auto
  have sub: "set (concat (map (map fst) rs)) \<subseteq> set ks"
    using assms(2) recs by auto
  have "remdups (rev (concat (map (map fst) rs)) @ rev ks) = rev ks"
    using sub assms(3) by (simp add: remdups_append filter_empty_conv subset_iff distinct_remdups_id)
  then show ?thesis
    using assms(2) recs by (simp add: columns_def)
qed

lemma complete_batch_run:
  assumes "recs \<noteq> []" and "\<forall>r \<in> set recs. map fst r = REQUIRED_COLS"
    and "astype_Int64 (map (\<lambda>r. to_numeric env (cell ''objectid'' r)) recs) = Inr oids"
    and "py_strip env = ascii_strip" and "py_lower env = ascii_lower"
  shows "transform_data env recs
           = Inr (Features (output_rows (transform_data env recs)))"
proof -
  have cols: "columns recs = REQUIRED_COLS"
    using assms(1,2) by (rule columns_same_keys) (simp add: REQUIRED_COLS_def)
  have "repeated_label env recs = None"
    by (simp add: repeated_label_def renamed_labels_def labels_at_rename_def column_order_def
        cols REQUIRED_COLS_def assms(4,5) text_defs)
  then show ?thesis
    using transform_data_ok [OF assms(1) _ assms(3)] cols by (simp add: output_rows_def)
qed

lemma pandas3_env_simps:
  "py_strip pandas3_env = ascii_strip" "py_lower pandas3_env = ascii_lower"
  "py_upper pandas3_env = ascii_upper" "py_title pandas3_env = ascii_title"
  "parse_number pandas3_env = parse_number sample_env"
  "astype_str pandas3_env column (JStr s) = Some s"
  "astype_str pandas3_env column JNull = None"
  by (simp_all add: pandas3_env_def sample_env_def)

lemma sample_env_simps:
  "py_strip sample_env = ascii_strip" "py_lower sample_env = ascii_lower"
  "py_upper sample_env = ascii_upper" "py_title sample_env = ascii_title"
  "astype_str sample_env column (JStr s) = Some s"
  "astype_str sample_env column JNull = Some ''None''"
  "negative_zero_max sample_env pressures = False"
  by (simp_all add: sample_env_def)

lemma sample_env_conform: "ascii_conform sample_env" "strings_kept sample_env"
  by (simp_all add: ascii_conform_def strings_kept_def sample_env_simps)

lemma sample_batch_run:
  "transform_data sample_env sample_batch
     = Inr (Features (output_rows (transform_data sample_env sample_batch)))"
  by (rule complete_batch_run [where oids = "[Some 1, Some 3, Some 7, Some 8, Some 10, Some 20]"])
    (simp_all add: sample_defs REQUIRED_COLS_def cell_def to_numeric_def to_Int64_def)

lemma null_batch_run:
  "transform_data sample_env null_batch
     = Inr (Features (output_rows (transform_data sample_env null_batch)))"
  by (rule complete_batch_run [where oids = "[Some 1, Some 8]"])
    (simp_all add: sample_defs REQUIRED_COLS_def cell_def to_numeric_def to_Int64_def)

lemma null_batch_run_pandas3:
  "transform_data pandas3_env null_batch
     = Inr (Features (output_rows (transform_data pandas3_env null_batch)))"
  by (rule complete_batch_run [where oids = "[Some 1, Some 8]"])
    (simp_all add: pandas3_env_def sample_defs REQUIRED_COLS_def cell_def to_numeric_def
      to_Int64_def)

lemma single_hydrant_run:
  "transform_data sample_env [hydrant ''1'' status pressure]
     = Inr (Features (output_rows (transform_data sample_env [hydrant ''1'' status pressure])))"
  by (rule complete_batch_run [where oids = "[Some 1]"])
    (simp_all add: sample_defs REQUIRED_COLS_def cell_def to_numeric_def to_Int64_def)

lemma sample_pressures:
  "map (coerced_pressure sample_env) sample_batch = [Fin 45, Fin 60, Fin 30, NaN, Fin 10, Fin 25]"
  by (simp add: coerced_pressure_def sample_defs cell_def to_numeric_def)

lemma singleton_map: "length xs = 1 \<Longrightarrow> map f xs = [f (xs ! 0)]"
  by (cases xs) auto

lemma pair_map: "length xs = 2 \<Longrightarrow> map f xs = [f (xs ! 0), f (xs ! 1)]"
  by (cases xs; cases "tl xs") auto

lemma sample_status_cells:
  "map (cell ''lifecyclestatus'') sample_batch
     = [JStr ''Active'', JStr '' ab '', JStr ''AC'', JStr ''Retired'', JStr ''active'',
        JStr ''Abandoned'']"
  by (simp add: sample_defs cell_def)

lemma sample_batch_length: "length sample_batch = 6"
  by (simp add: sample_batch_def)

lemma sample_status_cell_at:
  assumes "i < 6"
  shows "cell ''lifecyclestatus'' (sample_batch ! i)
     = [JStr ''Active'', JStr '' ab '', JStr ''AC'', JStr ''Retired'', JStr ''active'',
        JStr ''Abandoned''] ! i"
  using assms nth_map [of i sample_batch "cell ''lifecyclestatus''"]
  by (simp add: sample_status_cells sample_batch_length)

lemma sample_status_at:
  assumes "i < 6"
  shows "map_option (\<lambda>t. py_upper sample_env (py_strip sample_env t))
           (text_cell sample_env ''lifecyclestatus'' sample_batch (sample_batch ! i))
     = [Some ''ACTIVE'', Some ''AB'', Some ''AC'', Some ''RETIRED'', Some ''ACTIVE'',
        Some ''ABANDONED''] ! i"
proof -
  have "i = 0 \<or> i = 1 \<or> i = 2 \<or> i = 3 \<or> i = 4 \<or> i = 5" using assms by arith
  then show ?thesis
    using sample_status_cell_at [OF assms]
    by (auto simp: text_cell_def sample_env_simps text_defs)
qed

lemma sample_pressure_at:
  assumes "i < 6"
  shows "coerced_pressure sample_env (sample_batch ! i)
     = [Fin 45, Fin 60, Fin 30, NaN, Fin 10, Fin 25] ! i"
  using assms nth_map [of i sample_batch "coerced_pressure sample_env"]
  by (simp add: sample_pressures sample_batch_length)

section \<open>Transformation: the claims\<close>

text \<open>
  C7. \<open>transform_data\<close> on the empty sequence returns the frame as it was built, which is
  empty, and raises nothing; no parameter of the environment is consulted.
\<close>

theorem transform_data_empty:
  "transform_data env [] = Inr (Raw []) \<and> df_empty (Raw [])"
  by (simp add: transform_data_def)

text \<open>
  C3. In every row of a transformed batch, \<open>pressure_category\<close> follows the right-closed
  intervals on the coerced \<open>staticpressure\<close>: up to 20 INSUFFICIENT, above 20 up to 40
  MARGINAL, above 40 up to 60 ADEQUATE, above 60 EXCELLENT, and null for a null pressure.
  (Minus infinity lies in no interval; plus infinity lies in the last one.)
\<close>

theorem pressure_category_intervals:
  assumes "transform_data env recs = Inr (Features rows)" and "i < length recs"
  shows "i < length rows \<and>
         pressure_category (rows ! i) =
           (case coerced_pressure env (recs ! i) of
              NaN \<Rightarrow> None
            | NInf \<Rightarrow> None
            | Fin x \<Rightarrow> Some (if x \<le> 20 then ''INSUFFICIENT'' else if x \<le> 40 then ''MARGINAL''
                             else if x \<le> 60 then ''ADEQUATE'' else ''EXCELLENT'')
            | PInf \<Rightarrow> Some ''EXCELLENT'')"
  using transform_data_row(1,7) [OF assms] assms(2)
  by (simp add: pressure_category_of_cases)

theorem pressure_category_intervals_witness:
  "transform_data sample_env sample_batch
     = Inr (Features (output_rows (transform_data sample_env sample_batch)))
   \<and> (3::nat) < length sample_batch
   \<and> coerced_pressure sample_env (sample_batch ! 1) = Fin 60
   \<and> pressure_category (output_rows (transform_data sample_env sample_batch) ! 1) = Some ''ADEQUATE''
   \<and> coerced_pressure sample_env (sample_batch ! 2) = Fin 30
   \<and> pressure_category (output_rows (transform_data sample_env sample_batch) ! 2) = Some ''MARGINAL''
   \<and> coerced_pressure sample_env (sample_batch ! 3) = NaN
   \<and> pressure_category (output_rows (transform_data sample_env sample_batch) ! 3) = None"
  using pressure_category_intervals [OF sample_batch_run, of 1]
    pressure_category_intervals [OF sample_batch_run, of 2]
    pressure_category_intervals [OF sample_batch_run, of 3] sample_batch_run
  by (simp add: sample_pressure_at sample_batch_length)

lemma example_statuses:
  "ascii_upper (ascii_strip ''ab'') = ''AB''"
  "ascii_upper (ascii_strip ''Abandoned'') = ''ABANDONED''"
  "ascii_upper (ascii_strip ''Active'') = ''ACTIVE''"
  "ascii_upper (ascii_strip ''AC'') = ''AC''"
  "ascii_upper (ascii_strip ''Retired'') = ''RETIRED''"
  "ascii_upper (ascii_strip ''None'') = ''NONE''"
  "ascii_title (ascii_strip ''None'') = ''None''"
  by (simp_all add: text_defs)

lemma example_ascii:
  "is_ascii ''ab''" "is_ascii ''Abandoned''" "is_ascii ''Active''" "is_ascii ''AC''"
  "is_ascii ''Retired''" "is_ascii ''None''"
  by (simp_all add: is_ascii_def)

text \<open>
  C8. In every row of a transformed batch, \<open>lifecyclestatus\<close> is the text that
  \<open>astype(str)\<close> made of the input cell, stripped and then upper-cased (null when that
  text is null), and \<open>is_active\<close> is 2 when it is AB or ABANDONED, else 1 when it is ACTIVE
  or AC, else 0. When \<open>astype(str)\<close> keeps a string as it is, the text of a string cell is
  the string itself; when moreover the text functions act on ASCII as every Python does,
  the inputs ab and Abandoned give 2, Active and AC give 1, Retired gives 0.
\<close>

theorem is_active_flag:
  assumes "transform_data env recs = Inr (Features rows)" and "i < length recs"
  shows "let input = cell ''lifecyclestatus'' (recs ! i);
             status = map_option (\<lambda>t. py_upper env (py_strip env t))
                        (text_cell env ''lifecyclestatus'' recs (recs ! i))
         in i < length rows
          \<and> lifecyclestatus (rows ! i) = status
          \<and> is_active (rows ! i) =
              (if status \<in> {Some ''AB'', Some ''ABANDONED''} then 2
               else if status \<in> {Some ''ACTIVE'', Some ''AC''} then 1 else 0)
          \<and> (strings_kept env \<longrightarrow>
                (\<forall>s. input = JStr s \<longrightarrow> status = Some (py_upper env (py_strip env s))))
          \<and> (strings_kept env \<and> ascii_conform env \<longrightarrow>
                (\<forall>s. input = JStr s \<and> is_ascii s \<longrightarrow> status = Some (ascii_upper (ascii_strip s)))
              \<and> (input \<in> {JStr ''ab'', JStr ''Abandoned''} \<longrightarrow> is_active (rows ! i) = 2)
              \<and> (input \<in> {JStr ''Active'', JStr ''AC''} \<longrightarrow> is_active (rows ! i) = 1)
              \<and> (input = JStr ''Retired'' \<longrightarrow> is_active (rows ! i) = 0))"
proof -
  let ?input = "cell ''lifecyclestatus'' (recs ! i)"
  let ?status = "map_option (\<lambda>t. py_upper env (py_strip env t))
                   (text_cell env ''lifecyclestatus'' recs (recs ! i))"
  have len: "i < length rows"
    using transform_data_row(1) [OF assms] assms(2) by simp
  have st: "lifecyclestatus (rows ! i) = ?status"
    by (rule transform_data_row(2) [OF assms])
  have act: "is_active (rows ! i) =
              (if ?status \<in> {Some ''AB'', Some ''ABANDONED''} then 2
               else if ?status \<in> {Some ''ACTIVE'', Some ''AC''} then 1 else 0)"
    using transform_data_row(5) [OF assms] by (simp only: is_active_of_cases st)
  have kept: "?status = Some (py_upper env (py_strip env s))"
    if "strings_kept env" "?input = JStr s" for s
    using text_cell_string [OF that] by simp
  have ascii: "?status = Some (ascii_upper (ascii_strip s))"
    if "strings_kept env" "ascii_conform env" "?input = JStr s" "is_ascii s" for s
    using kept [OF that(1,3)] ascii_status [OF that(2,4)] by simp
  have ex2: "is_active (rows ! i) = 2"
    if "strings_kept env" "ascii_conform env" "?input \<in> {JStr ''ab'', JStr ''Abandoned''}"
  proof -
    from that(3) have "?status = Some ''AB'' \<or> ?status = Some ''ABANDONED''"
      using ascii [OF that(1,2) _ example_ascii(1)] ascii [OF that(1,2) _ example_ascii(2)]
      by (auto simp: example_statuses)
    then show ?thesis
    proof
      assume s: "?status = Some ''AB''"
      show ?thesis unfolding act s by simp
    next
      assume s: "?status = Some ''ABANDONED''"
      show ?thesis unfolding act s by simp
    qed
  qed
  have ex1: "is_active (rows ! i) = 1"
    if "strings_kept env" "ascii_conform env" "?input \<in> {JStr ''Active'', JStr ''AC''}"
  proof -
    from that(3) have "?status = Some ''ACTIVE'' \<or> ?status = Some ''AC''"
      using ascii [OF that(1,2) _ example_ascii(3)] ascii [OF that(1,2) _ example_ascii(4)]
      by (auto simp: example_statuses)
    then show ?thesis
    proof
      assume s: "?status = Some ''ACTIVE''"
      show ?thesis unfolding act s by simp
    next
      assume s: "?status = Some ''AC''"
      show ?thesis unfolding act s by simp
    qed
  qed
  have ex0: "is_active (rows ! i) = 0"
    if "strings_kept env" "ascii_conform env" "?input = JStr ''Retired''"
  proof -
    have s: "?status = Some ''RETIRED''"
      using ascii [OF that example_ascii(5)] by (simp add: example_statuses)
    show ?thesis unfolding act s by simp
  qed
  show ?thesis
    unfolding Let_def using len st act kept ascii ex2 ex1 ex0 by blast
qed

theorem is_active_flag_witness:
  "transform_data sample_env sample_batch
     = Inr (Features (output_rows (transform_data sample_env sample_batch)))
   \<and> (5::nat) < length sample_batch
   \<and> strings_kept sample_env \<and> ascii_conform sample_env
   \<and> map (cell ''lifecyclestatus'') sample_batch
       = [JStr ''Active'', JStr '' ab '', JStr ''AC'', JStr ''Retired'', JStr ''active'',
          JStr ''Abandoned'']
   \<and> lifecyclestatus (output_rows (transform_data sample_env sample_batch) ! 1) = Some ''AB''
   \<and> is_active (output_rows (transform_data sample_env sample_batch) ! 0) = 1
   \<and> is_active (output_rows (transform_data sample_env sample_batch) ! 1) = 2
   \<and> is_active (output_rows (transform_data sample_env sample_batch) ! 2) = 1
   \<and> is_active (output_rows (transform_data sample_env sample_batch) ! 3) = 0
   \<and> is_active (output_rows (transform_data sample_env sample_batch) ! 5) = 2"
proof -
  have len: "(0::nat) < length sample_batch" "(1::nat) < length sample_batch"
    "(2::nat) < length sample_batch" "(3::nat) < length sample_batch"
    "(5::nat) < length sample_batch"
    by (simp_all add: sample_batch_length)
  note rule = is_active_flag [OF sample_batch_run, unfolded Let_def]
  note status = rule [THEN conjunct2, THEN conjunct1]
  note active = rule [THEN conjunct2, THEN conjunct2, THEN conjunct1]
  from status [OF len(2)] active [OF len(1)] active [OF len(2)] active [OF len(3)]
    active [OF len(4)] active [OF len(5)]
  show ?thesis
    using sample_batch_run sample_env_conform sample_status_cells len(5)
    by (simp add: sample_status_at)
qed

text \<open>
  C10, amended. In every row of a transformed batch, each of the three text fields is the
  text that \<open>astype(str)\<close> made of the input cell, stripped and then upper-cased
  (\<open>lifecyclestatus\<close>) or title-cased (\<open>servicearea\<close>, \<open>neighborhood\<close>); it is null exactly
  when \<open>astype(str)\<close> left the cell null. When \<open>astype(str)\<close> keeps a string as it is, a
  string cell gives a string. Where \<open>astype(str)\<close> makes the text None of a cell, as
  pandas 1 and 2 do of None, and the text functions act on ASCII as every Python does, the
  fields are NONE, None and None.
\<close>

theorem text_fields_follow_astype:
  assumes "transform_data env recs = Inr (Features rows)" and "i < length recs"
  shows "let status = text_cell env ''lifecyclestatus'' recs (recs ! i);
             area = text_cell env ''servicearea'' recs (recs ! i);
             hood = text_cell env ''neighborhood'' recs (recs ! i)
         in i < length rows
          \<and> lifecyclestatus (rows ! i) = map_option (\<lambda>t. py_upper env (py_strip env t)) status
          \<and> servicearea (rows ! i) = map_option (\<lambda>t. py_title env (py_strip env t)) area
          \<and> neighborhood (rows ! i) = map_option (\<lambda>t. py_title env (py_strip env t)) hood
          \<and> (lifecyclestatus (rows ! i) = None \<longleftrightarrow> status = None)
          \<and> (servicearea (rows ! i) = None \<longleftrightarrow> area = None)
          \<and> (neighborhood (rows ! i) = None \<longleftrightarrow> hood = None)
          \<and> (strings_kept env \<longrightarrow>
                (\<forall>s. cell ''lifecyclestatus'' (recs ! i) = JStr s \<longrightarrow>
                      lifecyclestatus (rows ! i) = Some (py_upper env (py_strip env s)))
              \<and> (\<forall>s. cell ''servicearea'' (recs ! i) = JStr s \<longrightarrow>
                      servicearea (rows ! i) = Some (py_title env (py_strip env s)))
              \<and> (\<forall>s. cell ''neighborhood'' (recs ! i) = JStr s \<longrightarrow>
                      neighborhood (rows ! i) = Some (py_title env (py_strip env s))))
          \<and> (ascii_conform env \<longrightarrow>
                (status = Some ''None'' \<longrightarrow> lifecyclestatus (rows ! i) = Some ''NONE'')
              \<and> (area = Some ''None'' \<longrightarrow> servicearea (rows ! i) = Some ''None'')
              \<and> (hood = Some ''None'' \<longrightarrow> neighborhood (rows ! i) = Some ''None''))"
proof -
  note row = transform_data_row(1,2,3,4) [OF assms]
  have len: "i < length rows"
    using row(1) assms(2) by simp
  have kept: "text_cell env c recs (recs ! i) = Some s"
    if "strings_kept env" "cell c (recs ! i) = JStr s" for c s
    using that by (rule text_cell_string)
  have up: "py_upper env (py_strip env ''None'') = ''NONE''"
    and ti: "py_title env (py_strip env ''None'') = ''None''" if "ascii_conform env"
    using ascii_status [OF that example_ascii(6)] ascii_name [OF that example_ascii(6)]
    by (simp_all add: example_statuses)
  show ?thesis
    unfolding Let_def row(2,3,4)
    using len kept up ti by (auto simp: option.map_comp)
qed

theorem text_fields_follow_astype_witness:
  "transform_data sample_env null_batch
     = Inr (Features (output_rows (transform_data sample_env null_batch)))
   \<and> (1::nat) < length null_batch
   \<and> ascii_conform sample_env
   \<and> map (cell ''lifecyclestatus'') null_batch = [JStr ''Active'', JNull]
   \<and> map (cell ''servicearea'') null_batch = [JStr ''central'', JNull]
   \<and> map (cell ''neighborhood'') null_batch = [JStr ''over the rhine'', JNull]
   \<and> text_cell sample_env ''lifecyclestatus'' null_batch (null_batch ! 1) = Some ''None''
   \<and> lifecyclestatus (output_rows (transform_data sample_env null_batch) ! 0) = Some ''ACTIVE''
   \<and> servicearea (output_rows (transform_data sample_env null_batch) ! 0) = Some ''Central''
   \<and> neighborhood (output_rows (transform_data sample_env null_batch) ! 0)
       = Some ''Over The Rhine''
   \<and> lifecyclestatus (output_rows (transform_data sample_env null_batch) ! 1) = Some ''NONE''
   \<and> servicearea (output_rows (transform_data sample_env null_batch) ! 1) = Some ''None''
   \<and> neighborhood (output_rows (transform_data sample_env null_batch) ! 1) = Some ''None''"
proof -
  have len: "(0::nat) < length null_batch" "(1::nat) < length null_batch"
    by (simp_all add: null_batch_def)
  have cells: "map (cell ''lifecyclestatus'') null_batch = [JStr ''Active'', JNull]"
    "map (cell ''servicearea'') null_batch = [JStr ''central'', JNull]"
    "map (cell ''neighborhood'') null_batch = [JStr ''over the rhine'', JNull]"
    by (simp_all add: null_batch_def null_fields_def hydrant_def cell_def)
  have at: "cell ''lifecyclestatus'' (null_batch ! 0) = JStr ''Active''"
    "cell ''servicearea'' (null_batch ! 0) = JStr ''central''"
    "cell ''neighborhood'' (null_batch ! 0) = JStr ''over the rhine''"
    "cell ''lifecyclestatus'' (null_batch ! 1) = JNull"
    "cell ''servicearea'' (null_batch ! 1) = JNull"
    "cell ''neighborhood'' (null_batch ! 1) = JNull"
    by (simp_all add: null_batch_def null_fields_def hydrant_def cell_def)
  have texts: "ascii_upper (ascii_strip ''Active'') = ''ACTIVE''"
    "ascii_title (ascii_strip ''central'') = ''Central''"
    "ascii_title (ascii_strip ''over the rhine'') = ''Over The Rhine''"
    by (simp_all add: text_defs)
  note rule = text_fields_follow_astype [OF null_batch_run, unfolded Let_def]
  from rule [OF len(1)] rule [OF len(2)]
  show ?thesis
    using null_batch_run sample_env_conform(1) cells len(2) at
    by (simp add: text_cell_def sample_env_simps texts example_statuses)
qed

text \<open>
  C10 as stated fails where \<open>astype(str)\<close> keeps a missing value missing, as pandas 3
  does: the three text fields of a record whose values are None are null in the output.
\<close>

theorem text_fields_null_counterexample:
  "map (cell ''lifecyclestatus'') null_batch = [JStr ''Active'', JNull]
   \<and> map (cell ''servicearea'') null_batch = [JStr ''central'', JNull]
   \<and> map (cell ''neighborhood'') null_batch = [JStr ''over the rhine'', JNull]
   \<and> transform_data pandas3_env null_batch
       = Inr (Features (output_rows (transform_data pandas3_env null_batch)))
   \<and> map lifecyclestatus (output_rows (transform_data pandas3_env null_batch))
       = [Some ''ACTIVE'', None]
   \<and> map servicearea (output_rows (transform_data pandas3_env null_batch))
       = [Some ''Central'', None]
   \<and> map neighborhood (output_rows (transform_data pandas3_env null_batch))
       = [Some ''Over The Rhine'', None]"
proof -
  let ?rows = "output_rows (transform_data pandas3_env null_batch)"
  have len: "(0::nat) < length null_batch" "(1::nat) < length null_batch"
    by (simp_all add: null_batch_def)
  have cells: "map (cell ''lifecyclestatus'') null_batch = [JStr ''Active'', JNull]"
    "map (cell ''servicearea'') null_batch = [JStr ''central'', JNull]"
    "map (cell ''neighborhood'') null_batch = [JStr ''over the rhine'', JNull]"
    by (simp_all add: null_batch_def null_fields_def hydrant_def cell_def)
  have at: "cell ''lifecyclestatus'' (null_batch ! 0) = JStr ''Active''"
    "cell ''servicearea'' (null_batch ! 0) = JStr ''central''"
    "cell ''neighborhood'' (null_batch ! 0) = JStr ''over the rhine''"
    "cell ''lifecyclestatus'' (null_batch ! 1) = JNull"
    "cell ''servicearea'' (null_batch ! 1) = JNull"
    "cell ''neighborhood'' (null_batch ! 1) = JNull"
    by (simp_all add: null_batch_def null_fields_def hydrant_def cell_def)
  have texts: "ascii_upper (ascii_strip ''Active'') = ''ACTIVE''"
    "ascii_title (ascii_strip ''central'') = ''Central''"
    "ascii_title (ascii_strip ''over the rhine'') = ''Over The Rhine''"
    by (simp_all add: text_defs)
  have rows: "length ?rows = 2"
    using transform_data_row(1) [OF null_batch_run_pandas3 len(1)] by (simp add: null_batch_def)
  show ?thesis
    using transform_data_row(2,3,4) [OF null_batch_run_pandas3 len(1)]
      transform_data_row(2,3,4) [OF null_batch_run_pandas3 len(2)]
      null_batch_run_pandas3 cells at
    by (simp add: pair_map [OF rows] text_cell_def pandas3_env_simps texts)
qed

lemma series_max_all_null: "\<forall>p \<in> set ps. p = NaN \<Longrightarrow> series_max ps = NaN"
  by (simp add: series_max_def isna_def filter_empty_conv[THEN iffD2])

lemma series_median_all_null: "\<forall>p \<in> set ps. p = NaN \<Longrightarrow> series_median ps = NaN"
  by (simp add: series_median_def isna_def filter_empty_conv[THEN iffD2] sort_num_def)

lemma risk_score_undefined:
  "fdiv_signed z p m = NaN \<Longrightarrow> pressure_risk_score_of z m p = Fin 100"
  by (simp add: pressure_risk_score_of_def fsub_def fillna_def isna_def fround_100)

lemma risk_score_null: "pressure_risk_score_of z m NaN = Fin 100"
  by (rule risk_score_undefined) (rule fdiv_signed_NaN)

text \<open>
  C9. When the coerced \<open>staticpressure\<close> of every row of a transformed batch is null, the
  median of the column is null, so the imputation leaves \<open>staticpressure\<close> null in every
  output row; every row has \<open>pressure_risk_score\<close> 100 and a null \<open>pressure_category\<close>.
\<close>

theorem all_null_pressure_stays_null:
  assumes "transform_data env recs = Inr (Features rows)"
    and "\<forall>r \<in> set recs. coerced_pressure env r = NaN"
  shows "recs \<noteq> [] \<and> length rows = length recs
       \<and> series_median (map (coerced_pressure env) recs) = NaN
       \<and> (\<forall>i < length rows.
             staticpressure (rows ! i) = NaN
           \<and> pressure_risk_score (rows ! i) = Fin 100
           \<and> pressure_category (rows ! i) = None)"
proof -
  have ne: "recs \<noteq> []"
    using assms(1) by (auto simp: transform_data_def)
  then have len: "length rows = length recs"
    using transform_data_row(1) [OF assms(1), of 0] by simp
  have med: "series_median (map (coerced_pressure env) recs) = NaN"
    using assms(2) by (intro series_median_all_null) simp
  have "staticpressure (rows ! i) = NaN \<and> pressure_risk_score (rows ! i) = Fin 100
      \<and> pressure_category (rows ! i) = None" if "i < length rows" for i
  proof -
    have i: "i < length recs" using that len by simp
    then have p: "coerced_pressure env (recs ! i) = NaN"
      using assms(2) by simp
    show ?thesis
      using transform_data_row(6,7,8) [OF assms(1) i]
      by (simp add: p med risk_score_null pressure_category_of_cases fillna_def)
  qed
  then show ?thesis using ne len med by blast
qed

lemma null_pressures: "\<forall>r \<in> set null_batch. coerced_pressure sample_env r = NaN"
  by (simp add: coerced_pressure_def sample_defs cell_def to_numeric_def)

theorem all_null_pressure_stays_null_witness:
  "transform_data sample_env null_batch
     = Inr (Features (output_rows (transform_data sample_env null_batch)))
   \<and> map (coerced_pressure sample_env) null_batch = [NaN, NaN]
   \<and> length (output_rows (transform_data sample_env null_batch)) = 2
   \<and> map staticpressure (output_rows (transform_data sample_env null_batch)) = [NaN, NaN]
   \<and> map pressure_risk_score (output_rows (transform_data sample_env null_batch)) = [Fin 100, Fin 100]
   \<and> map pressure_category (output_rows (transform_data sample_env null_batch)) = [None, None]"
proof -
  have len: "length null_batch = 2" by (simp add: null_batch_def)
  have two: "map f xs = [f (xs ! 0), f (xs ! 1)]" if "length xs = 2" for f :: "feature_record \<Rightarrow> 'b" and xs
    using that by (cases xs; cases "tl xs") auto
  show ?thesis
    using all_null_pressure_stays_null [OF null_batch_run null_pressures] null_batch_run null_pressures
    by (simp add: len two) (simp add: null_batch_def)
qed

text \<open>
  C1. What the code does, in every row of a transformed batch, with \<open>p\<close> the coerced
  \<open>staticpressure\<close> of the row: \<open>is_active\<close> is 0, 1 or 2; an active row (1) has
  \<open>service_quality\<close> HIGH when \<open>p\<close> is above 40, MEDIUM when \<open>p\<close> is at least 20 and at
  most 40, LOW when \<open>p\<close> is below 20, UNKNOWN when \<open>p\<close> is null; an inactive row (0) has
  INACTIVE; an abandoned row (2) has UNKNOWN. An active row at exactly 40 meets the
  condition of HIGH, \<open>p >= 40\<close>, and is assigned HIGH; the assignment of MEDIUM runs next,
  and its \<open>between(20, 40)\<close> includes 40, so the row ends as MEDIUM. The comment of the
  source and the first rule of the claim both ask for HIGH there.
\<close>

theorem service_quality_tiers:
  assumes "transform_data env recs = Inr (Features rows)" and "i < length recs"
  shows "let a = is_active (rows ! i); p = coerced_pressure env (recs ! i);
             q = service_quality (rows ! i)
         in i < length rows \<and> a \<in> {0, 1, 2}
          \<and> (a = 1 \<and> (p = PInf \<or> (\<exists>x. p = Fin x \<and> 40 < x)) \<longrightarrow> q = ''HIGH'')
          \<and> (a = 1 \<and> p = Fin 40 \<longrightarrow> fge p (Fin 40) \<and> q = ''MEDIUM'' \<and> q \<noteq> ''HIGH'')
          \<and> (a = 1 \<and> (\<exists>x. p = Fin x \<and> 20 \<le> x \<and> x < 40) \<longrightarrow> q = ''MEDIUM'')
          \<and> (a = 1 \<and> (p = NInf \<or> (\<exists>x. p = Fin x \<and> x < 20)) \<longrightarrow> q = ''LOW'')
          \<and> (a = 0 \<longrightarrow> q = ''INACTIVE'')
          \<and> (a = 2 \<longrightarrow> q = ''UNKNOWN'')
          \<and> (a = 1 \<and> p = NaN \<longrightarrow> q = ''UNKNOWN'')"
  using transform_data_row(1,5,9) [OF assms] assms(2)
    is_active_of_range [of "lifecyclestatus (rows ! i)"]
  by (auto simp: service_quality_of_cases Let_def fge_def fle_def)

lemma sample_active_at:
  assumes "i < 6"
  shows "is_active (output_rows (transform_data sample_env sample_batch) ! i)
     = [1, 2, 1, 0, 1, 2] ! i"
proof -
  have i: "i < length sample_batch" using assms by (simp add: sample_batch_length)
  have "i = 0 \<or> i = 1 \<or> i = 2 \<or> i = 3 \<or> i = 4 \<or> i = 5" using assms by arith
  then show ?thesis
    using transform_data_row(2,5) [OF sample_batch_run i] sample_status_at [OF assms]
    by (auto simp: is_active_of_def isin_def)
qed

lemma active_at_40:
  "coerced_pressure sample_env (hydrant ''1'' ''Active'' ''40'') = Fin 40"
  "is_active (output_rows (transform_data sample_env [hydrant ''1'' ''Active'' ''40'']) ! 0) = 1"
proof -
  let ?b = "[hydrant ''1'' ''Active'' ''40'']"
  have run: "transform_data sample_env ?b = Inr (Features (output_rows (transform_data sample_env ?b)))"
    by (rule single_hydrant_run)
  show "coerced_pressure sample_env (hydrant ''1'' ''Active'' ''40'') = Fin 40"
    by (simp add: coerced_pressure_def sample_defs cell_def to_numeric_def)
  have c: "cell ''lifecyclestatus'' (hydrant ''1'' ''Active'' ''40'') = JStr ''Active''"
    by (simp add: hydrant_def cell_def)
  show "is_active (output_rows (transform_data sample_env ?b) ! 0) = 1"
    using transform_data_row(2,5) [OF run, of 0]
    by (simp add: text_cell_def c sample_env_simps example_statuses is_active_of_cases)
qed

theorem service_quality_tiers_witness:
  "transform_data sample_env [hydrant ''1'' ''Active'' ''40'']
     = Inr (Features (output_rows (transform_data sample_env [hydrant ''1'' ''Active'' ''40''])))
   \<and> coerced_pressure sample_env ([hydrant ''1'' ''Active'' ''40''] ! 0) = Fin 40
   \<and> is_active (output_rows (transform_data sample_env [hydrant ''1'' ''Active'' ''40'']) ! 0) = 1
   \<and> service_quality (output_rows (transform_data sample_env [hydrant ''1'' ''Active'' ''40'']) ! 0)
       = ''MEDIUM''
   \<and> transform_data sample_env sample_batch
       = Inr (Features (output_rows (transform_data sample_env sample_batch)))
   \<and> (5::nat) < length sample_batch
   \<and> map (coerced_pressure sample_env) sample_batch = [Fin 45, Fin 60, Fin 30, NaN, Fin 10, Fin 25]
   \<and> is_active (output_rows (transform_data sample_env sample_batch) ! 0) = 1
   \<and> service_quality (output_rows (transform_data sample_env sample_batch) ! 0) = ''HIGH''
   \<and> is_active (output_rows (transform_data sample_env sample_batch) ! 1) = 2
   \<and> service_quality (output_rows (transform_data sample_env sample_batch) ! 1) = ''UNKNOWN''
   \<and> is_active (output_rows (transform_data sample_env sample_batch) ! 2) = 1
   \<and> service_quality (output_rows (transform_data sample_env sample_batch) ! 2) = ''MEDIUM''
   \<and> is_active (output_rows (transform_data sample_env sample_batch) ! 3) = 0
   \<and> service_quality (output_rows (transform_data sample_env sample_batch) ! 3) = ''INACTIVE''
   \<and> is_active (output_rows (transform_data sample_env sample_batch) ! 4) = 1
   \<and> service_quality (output_rows (transform_data sample_env sample_batch) ! 4) = ''LOW''"
  using service_quality_tiers [OF single_hydrant_run, of 0 "''Active''" "''40''"]
    service_quality_tiers [OF sample_batch_run, of 0]
    service_quality_tiers [OF sample_batch_run, of 1]
    service_quality_tiers [OF sample_batch_run, of 2]
    service_quality_tiers [OF sample_batch_run, of 3]
    service_quality_tiers [OF sample_batch_run, of 4] sample_batch_run
    single_hydrant_run [of "''Active''" "''40''"]
  by (simp add: sample_pressure_at sample_active_at sample_batch_length sample_pressures Let_def
      active_at_40)

lemma fle_refl: "a \<noteq> NaN \<Longrightarrow> fle a a"
  by (cases a) (simp_all add: fle_def)

lemma fle_trans: "fle a b \<Longrightarrow> fle b c \<Longrightarrow> fle a c"
  by (cases a; cases b; cases c) (simp_all add: fle_def)

lemma fmax_upper:
  assumes "a \<noteq> NaN" and "b \<noteq> NaN"
  shows "fle a (fmax a b)" and "fle b (fmax a b)" and "fmax a b \<noteq> NaN"
  using assms by (cases a; cases b; simp add: fle_def fmax_def)+

lemma foldl_fmax_mem: "foldl fmax y ys \<in> set (y # ys)"
  by (induction ys arbitrary: y) (auto simp: fmax_def)

lemma foldl_fmax_upper:
  assumes "y \<noteq> NaN" and "\<forall>z \<in> set ys. z \<noteq> NaN"
  shows "\<forall>z \<in> set (y # ys). fle z (foldl fmax y ys)"
  using assms
proof (induction ys arbitrary: y)
  case Nil
  then show ?case by (simp add: fle_refl)
next
  case (Cons a ys)
  have a: "a \<noteq> NaN" using Cons.prems(2) by simp
  have ih: "\<forall>z \<in> set (fmax y a # ys). fle z (foldl fmax (fmax y a) ys)"
    using Cons.prems fmax_upper(3) [OF Cons.prems(1) a] by (intro Cons.IH) auto
  then have top: "fle (fmax y a) (foldl fmax (fmax y a) ys)" by simp
  have "fle y (foldl fmax (fmax y a) ys)" "fle a (foldl fmax (fmax y a) ys)"
    using fmax_upper(1,2) [OF Cons.prems(1) a] top by (blast intro: fle_trans)+
  then show ?case using ih by simp
qed

lemma series_max_greatest:
  assumes "\<exists>p \<in> set ps. p \<noteq> NaN"
  shows "series_max ps \<in> set ps \<and> series_max ps \<noteq> NaN
       \<and> (\<forall>p \<in> set ps. p \<noteq> NaN \<longrightarrow> fle p (series_max ps))"
proof -
  let ?xs = "filter (\<lambda>x. \<not> isna x) ps"
  from assms have "?xs \<noteq> []" by (auto simp: filter_empty_conv isna_def)
  then obtain y ys where xs: "?xs = y # ys" by (cases ?xs) auto
  have mx: "series_max ps = foldl fmax y ys" by (simp add: series_max_def xs)
  have set_xs: "set (y # ys) = {p \<in> set ps. p \<noteq> NaN}"
    using xs [symmetric] by (auto simp: isna_def)
  have mem: "series_max ps \<in> set (y # ys)"
    unfolding mx by (rule foldl_fmax_mem)
  have "y \<noteq> NaN" "\<forall>z \<in> set ys. z \<noteq> NaN" using set_xs by auto
  then have "\<forall>z \<in> set (y # ys). fle z (series_max ps)"
    unfolding mx by (rule foldl_fmax_upper)
  then show ?thesis using mem unfolding set_xs by auto
qed

lemma risk_score_defined:
  assumes "fdiv_signed z p m \<noteq> NaN"
  shows "pressure_risk_score_of z m p
           = fround 2 (fsub (Fin 100) (fmul (fdiv_signed z p m) (Fin 100)))"
  using fsub_100_not_nan [OF fmul_100_not_nan [OF assms]]
  by (simp add: pressure_risk_score_of_def fillna_def isna_def)

text \<open>The steps of the score, for an evaluation on given numbers.\<close>

lemma formula_chain:
  assumes "fdiv_signed z p m = Fin q" and "fmul (Fin q) (Fin 100) = Fin t"
    and "fsub (Fin 100) (Fin t) = Fin s" and "fmul (Fin s) (Fin 100) = Fin u"
    and "fdiv (Fin (of_int (rint u))) (Fin 100) = r"
  shows "fround 2 (fsub (Fin 100) (fmul (fdiv_signed z p m) (Fin 100))) = r"
proof -
  have h: "(10::real) ^ 2 = 100" by simp
  show ?thesis
    by (simp only: fround_def frint_def assms h num.case)
qed

lemma formula_30_of_60:
  "fround 2 (fsub (Fin 100) (fmul (fdiv_signed z (Fin 30) (Fin 60)) (Fin 100))) = Fin 50"
proof (rule formula_chain)
  show "fdiv_signed z (Fin 30) (Fin 60) = Fin (1 / 2)"
    using binary64_dyadic [of 1 1] by (simp add: fdiv_signed_def)
  show "fmul (Fin (1 / 2)) (Fin 100) = Fin 50"
    using binary64_int [of 50] by simp
  show "fsub (Fin 100) (Fin 50) = Fin 50"
    using binary64_int [of 50] by (simp add: fsub_def)
  show "fmul (Fin 50) (Fin 100) = Fin 5000"
    using binary64_int [of 5000] by simp
  show "fdiv (Fin (of_int (rint 5000))) (Fin 100) = Fin 50"
    using binary64_int [of 50] rint_of_int [of 5000] by simp
qed

lemma formula_45_of_60:
  "fround 2 (fsub (Fin 100) (fmul (fdiv_signed z (Fin 45) (Fin 60)) (Fin 100))) = Fin 25"
proof (rule formula_chain)
  show "fdiv_signed z (Fin 45) (Fin 60) = Fin (3 / 4)"
    using binary64_dyadic [of 3 2] by (simp add: fdiv_signed_def)
  show "fmul (Fin (3 / 4)) (Fin 100) = Fin 75"
    using binary64_int [of 75] by simp
  show "fsub (Fin 100) (Fin 75) = Fin 25"
    using binary64_int [of 25] by (simp add: fsub_def)
  show "fmul (Fin 25) (Fin 100) = Fin 2500"
    using binary64_int [of 2500] by simp
  show "fdiv (Fin (of_int (rint 2500))) (Fin 100) = Fin 25"
    using binary64_int [of 25] rint_of_int [of 2500] by simp
qed

text \<open>
  87 of 160: the exact score is 45.625, a tie between 45.62 and 45.63. The quotient
  rounded to binary64 and multiplied by 100 is just below 54.375, so the score before the
  rounding is just above 45.625 and the result is the binary64 value nearest to 45.63.
\<close>

lemma formula_87_of_160:
  "fround 2 (fsub (Fin 100) (fmul (fdiv_signed False (Fin 87) (Fin 160)) (Fin 100)))
     = binary64 (4563 / 100)"
proof (rule formula_chain)
  have q: "binary64 (87 / 160) = Fin (2448832297382707 / 2 ^ 52)"
    by (subst binary64_scaled [where j = 53]) (simp_all add: rint_def)
  show "fdiv_signed False (Fin 87) (Fin 160) = Fin (2448832297382707 / 2 ^ 52)"
    using q by (simp add: fdiv_signed_def)
  have t: "binary64 (2448832297382707 / 2 ^ 52 * 100) = Fin (7652600929320959 / 2 ^ 47)"
    by (subst binary64_scaled [where j = 47]) (simp_all add: rint_def)
  show "fmul (Fin (2448832297382707 / 2 ^ 52)) (Fin 100) = Fin (7652600929320959 / 2 ^ 47)"
    using t by simp
  have s: "binary64 (100 - 7652600929320959 / 2 ^ 47) = Fin (6421147906211841 / 2 ^ 47)"
    by (subst binary64_scaled [where j = 47]) (simp_all add: rint_def)
  show "fsub (Fin 100) (Fin (7652600929320959 / 2 ^ 47)) = Fin (6421147906211841 / 2 ^ 47)"
    using s by (simp add: fsub_def)
  have u: "binary64 (6421147906211841 / 2 ^ 47 * 100) = Fin (5016521801728001 / 2 ^ 40)"
    by (subst binary64_scaled [where j = 40]) (simp_all add: rint_def)
  show "fmul (Fin (6421147906211841 / 2 ^ 47)) (Fin 100) = Fin (5016521801728001 / 2 ^ 40)"
    using u by simp
  have r: "rint (5016521801728001 / 2 ^ 40) = 4563"
    by (simp add: rint_def)
  show "fdiv (Fin (of_int (rint (5016521801728001 / 2 ^ 40)))) (Fin 100) = binary64 (4563 / 100)"
    using r by simp
qed

text \<open>
  93 of 160: the exact score is 41.875, a tie again. Here the score before the rounding
  is just below 41.875 and the result is the binary64 value nearest to 41.87.
\<close>

lemma formula_93_of_160:
  "fround 2 (fsub (Fin 100) (fmul (fdiv_signed False (Fin 93) (Fin 160)) (Fin 100)))
     = binary64 (4187 / 100)"
proof (rule formula_chain)
  have q: "binary64 (93 / 160) = Fin (2617717283409101 / 2 ^ 52)"
    by (subst binary64_scaled [where j = 53]) (simp_all add: rint_def)
  show "fdiv_signed False (Fin 93) (Fin 160) = Fin (2617717283409101 / 2 ^ 52)"
    using q by (simp add: fdiv_signed_def)
  have t: "binary64 (2617717283409101 / 2 ^ 52 * 100) = Fin (8180366510653441 / 2 ^ 47)"
    by (subst binary64_scaled [where j = 47]) (simp_all add: rint_def)
  show "fmul (Fin (2617717283409101 / 2 ^ 52)) (Fin 100) = Fin (8180366510653441 / 2 ^ 47)"
    using t by simp
  have s: "binary64 (100 - 8180366510653441 / 2 ^ 47) = Fin (5893382324879359 / 2 ^ 47)"
    by (subst binary64_scaled [where j = 47]) (simp_all add: rint_def)
  show "fsub (Fin 100) (Fin (8180366510653441 / 2 ^ 47)) = Fin (5893382324879359 / 2 ^ 47)"
    using s by (simp add: fsub_def)
  have u: "binary64 (5893382324879359 / 2 ^ 47 * 100) = Fin (4604204941311999 / 2 ^ 40)"
    by (subst binary64_scaled [where j = 40]) (simp_all add: rint_def)
  show "fmul (Fin (5893382324879359 / 2 ^ 47)) (Fin 100) = Fin (4604204941311999 / 2 ^ 40)"
    using u by simp
  have r: "rint (4604204941311999 / 2 ^ 40) = 4187"
    by (simp add: rint_def)
  show "fdiv (Fin (of_int (rint (4604204941311999 / 2 ^ 40)))) (Fin 100) = binary64 (4187 / 100)"
    using r by simp
qed

text \<open>
  C5, amended. In a transformed batch with at least one non-null coerced
  \<open>staticpressure\<close>, the maximum \<open>maxP\<close> is one of the non-null pressures and no non-null
  pressure is above it. Every row with a null pressure has \<open>pressure_risk_score\<close> 100.
  Every row whose quotient \<open>p / maxP\<close> is defined has the score \<open>100 - p / maxP * 100\<close>,
  each operation rounded to binary64, then rounded to two decimals as numpy does
  (times 100, to the nearest integer with ties to even, divided by 100). The quotient is
  undefined for a null pressure, for 0 / 0 and for two infinities, and nowhere else; a row
  with an undefined quotient has the score 100. With a maximum of 60, a pressure of 30
  scores 50.
\<close>

theorem pressure_risk_score_formula:
  assumes "transform_data env recs = Inr (Features rows)"
  shows "let ps = map (coerced_pressure env) recs; maxP = series_max ps;
             quotient = (\<lambda>p. fdiv_signed (negative_zero_max env ps) p maxP)
         in length rows = length recs
          \<and> ((\<exists>p \<in> set ps. p \<noteq> NaN) \<longrightarrow>
                maxP \<in> set ps \<and> maxP \<noteq> NaN \<and> (\<forall>p \<in> set ps. p \<noteq> NaN \<longrightarrow> fle p maxP))
          \<and> (\<forall>i < length recs.
                (ps ! i = NaN \<longrightarrow> pressure_risk_score (rows ! i) = Fin 100)
              \<and> (quotient (ps ! i) \<noteq> NaN \<longrightarrow>
                   pressure_risk_score (rows ! i)
                     = fround 2 (fsub (Fin 100) (fmul (quotient (ps ! i)) (Fin 100))))
              \<and> (quotient (ps ! i) = NaN \<longrightarrow> pressure_risk_score (rows ! i) = Fin 100)
              \<and> (quotient (ps ! i) = NaN \<longleftrightarrow>
                   ps ! i = NaN \<or> maxP = NaN \<or> (ps ! i = Fin 0 \<and> maxP = Fin 0)
                   \<or> (ps ! i \<in> {NInf, PInf} \<and> maxP \<in> {NInf, PInf}))
              \<and> (maxP \<noteq> Fin 0 \<longrightarrow> quotient (ps ! i) = fdiv (ps ! i) maxP)
              \<and> (ps ! i = Fin 30 \<and> maxP = Fin 60 \<longrightarrow>
                   pressure_risk_score (rows ! i) = Fin 50))"
proof -
  let ?ps = "map (coerced_pressure env) recs"
  let ?z = "negative_zero_max env ?ps"
  let ?m = "series_max ?ps"
  have ne: "recs \<noteq> []"
    using assms by (auto simp: transform_data_def)
  then have len: "length rows = length recs"
    using transform_data_row(1) [OF assms, of 0] by simp
  have row: "pressure_risk_score (rows ! i) = pressure_risk_score_of ?z ?m (?ps ! i)"
    if "i < length recs" for i
    using transform_data_row(8) [OF assms that] that by simp
  have r1: "pressure_risk_score (rows ! i) = Fin 100"
    if "i < length recs" "?ps ! i = NaN" for i
    using that by (simp add: row risk_score_null)
  have r2: "pressure_risk_score (rows ! i)
      = fround 2 (fsub (Fin 100) (fmul (fdiv_signed ?z (?ps ! i) ?m) (Fin 100)))"
    if "i < length recs" "fdiv_signed ?z (?ps ! i) ?m \<noteq> NaN" for i
    using row [OF that(1)] risk_score_defined [OF that(2)] by simp
  have r3: "pressure_risk_score (rows ! i) = Fin 100"
    if "i < length recs" "fdiv_signed ?z (?ps ! i) ?m = NaN" for i
    using row [OF that(1)] risk_score_undefined [OF that(2)] by simp
  have r4: "fdiv_signed ?z p ?m = NaN \<longleftrightarrow>
      p = NaN \<or> ?m = NaN \<or> (p = Fin 0 \<and> ?m = Fin 0) \<or> (p \<in> {NInf, PInf} \<and> ?m \<in> {NInf, PInf})"
    for p
    by (rule fdiv_signed_nan_iff)
  have r5: "fdiv_signed ?z p ?m = fdiv p ?m" if "?m \<noteq> Fin 0" for p
    using that by (simp add: fdiv_signed_def)
  have r6: "pressure_risk_score (rows ! i) = Fin 50"
    if "i < length recs" "?ps ! i = Fin 30" "?m = Fin 60" for i
  proof -
    have "fdiv_signed ?z (?ps ! i) ?m \<noteq> NaN"
      unfolding r4 using that(2,3) by simp
    from r2 [OF that(1) this] show ?thesis
      by (simp only: that(2,3) formula_30_of_60)
  qed
  have rows: "(?ps ! i = NaN \<longrightarrow> pressure_risk_score (rows ! i) = Fin 100)
      \<and> (fdiv_signed ?z (?ps ! i) ?m \<noteq> NaN \<longrightarrow>
           pressure_risk_score (rows ! i)
             = fround 2 (fsub (Fin 100) (fmul (fdiv_signed ?z (?ps ! i) ?m) (Fin 100))))
      \<and> (fdiv_signed ?z (?ps ! i) ?m = NaN \<longrightarrow> pressure_risk_score (rows ! i) = Fin 100)
      \<and> (fdiv_signed ?z (?ps ! i) ?m = NaN \<longleftrightarrow>
           ?ps ! i = NaN \<or> ?m = NaN \<or> (?ps ! i = Fin 0 \<and> ?m = Fin 0)
           \<or> (?ps ! i \<in> {NInf, PInf} \<and> ?m \<in> {NInf, PInf}))
      \<and> (?m \<noteq> Fin 0 \<longrightarrow> fdiv_signed ?z (?ps ! i) ?m = fdiv (?ps ! i) ?m)
      \<and> (?ps ! i = Fin 30 \<and> ?m = Fin 60 \<longrightarrow> pressure_risk_score (rows ! i) = Fin 50)"
    if "i < length recs" for i
    using r1 [OF that] r2 [OF that] r3 [OF that] r4 [of "?ps ! i"] r5 [of "?ps ! i"] r6 [OF that]
    by (intro conjI impI) simp_all
  show ?thesis
    unfolding Let_def
    using len series_max_greatest [of ?ps] rows by blast
qed

lemma sample_max_list: "series_max [Fin 45, Fin 60, Fin 30, NaN, Fin 10, Fin 25] = Fin 60"
  by (simp add: series_max_def isna_def fmax_def)

lemma rounding_batch_run:
  "transform_data sample_env rounding_batch
     = Inr (Features (output_rows (transform_data sample_env rounding_batch)))"
  by (rule complete_batch_run [where oids = "[Some 1, Some 3, Some 7]"])
    (simp_all add: rounding_batch_def sample_defs REQUIRED_COLS_def cell_def to_numeric_def
      to_Int64_def)

lemma rounding_pressures:
  "map (coerced_pressure sample_env) rounding_batch = [Fin 87, Fin 93, Fin 160]"
  by (simp add: coerced_pressure_def rounding_batch_def sample_defs cell_def to_numeric_def)

lemma rounding_max_list: "series_max [Fin 87, Fin 93, Fin 160] = Fin 160"
  by (simp add: series_max_def isna_def fmax_def)

theorem pressure_risk_score_formula_witness:
  "transform_data sample_env sample_batch
     = Inr (Features (output_rows (transform_data sample_env sample_batch)))
   \<and> map (coerced_pressure sample_env) sample_batch = [Fin 45, Fin 60, Fin 30, NaN, Fin 10, Fin 25]
   \<and> series_max (map (coerced_pressure sample_env) sample_batch) = Fin 60
   \<and> pressure_risk_score (output_rows (transform_data sample_env sample_batch) ! 0) = Fin 25
   \<and> pressure_risk_score (output_rows (transform_data sample_env sample_batch) ! 2) = Fin 50
   \<and> pressure_risk_score (output_rows (transform_data sample_env sample_batch) ! 3) = Fin 100
   \<and> transform_data sample_env rounding_batch
       = Inr (Features (output_rows (transform_data sample_env rounding_batch)))
   \<and> map (coerced_pressure sample_env) rounding_batch = [Fin 87, Fin 93, Fin 160]
   \<and> series_max (map (coerced_pressure sample_env) rounding_batch) = Fin 160
   \<and> pressure_risk_score (output_rows (transform_data sample_env rounding_batch) ! 0)
       = binary64 (4563 / 100)
   \<and> pressure_risk_score (output_rows (transform_data sample_env rounding_batch) ! 1)
       = binary64 (4187 / 100)"
proof -
  note rule = pressure_risk_score_formula [OF sample_batch_run, unfolded Let_def,
      THEN conjunct2, THEN conjunct2, rule_format]
  note rounding = pressure_risk_score_formula [OF rounding_batch_run, unfolded Let_def,
      THEN conjunct2, THEN conjunct2, rule_format]
  have "(0::nat) < length sample_batch" "(2::nat) < length sample_batch" "(3::nat) < length sample_batch"
    by (simp_all add: sample_batch_length)
  note sample = rule [OF this(1), THEN conjunct2, THEN conjunct1]
    rule [OF this(2), THEN conjunct2, THEN conjunct2, THEN conjunct2, THEN conjunct2,
      THEN conjunct2]
    rule [OF this(3), THEN conjunct1]
  have "(0::nat) < length rounding_batch" "(1::nat) < length rounding_batch"
    by (simp_all add: rounding_batch_def)
  note ties = rounding [OF this(1), THEN conjunct2, THEN conjunct1]
    rounding [OF this(2), THEN conjunct2, THEN conjunct1]
  have a: "pressure_risk_score (output_rows (transform_data sample_env sample_batch) ! 0) = Fin 25"
    "pressure_risk_score (output_rows (transform_data sample_env sample_batch) ! 2) = Fin 50"
    "pressure_risk_score (output_rows (transform_data sample_env sample_batch) ! 3) = Fin 100"
    using sample
    by (simp_all add: sample_pressures sample_max_list fdiv_signed_nan_iff sample_env_simps
        formula_45_of_60)
  have b: "pressure_risk_score (output_rows (transform_data sample_env rounding_batch) ! 0)
      = binary64 (4563 / 100)"
    "pressure_risk_score (output_rows (transform_data sample_env rounding_batch) ! 1)
      = binary64 (4187 / 100)"
    using ties
    by (simp_all add: rounding_pressures rounding_max_list fdiv_signed_nan_iff sample_env_simps
        formula_87_of_160 formula_93_of_160)
  show ?thesis
    using a b sample_batch_run rounding_batch_run
    by (simp add: sample_pressures sample_max_list rounding_pressures rounding_max_list)
qed

text \<open>
  C5 as stated fails for a batch whose maximum pressure is 0: the quotient 0 / 0 is null,
  the formula gives null, and \<open>fillna(100)\<close> turns the score of that row into 100.
\<close>

theorem pressure_risk_score_zero_max_counterexample:
  "map (coerced_pressure sample_env) [hydrant ''1'' ''Active'' ''0''] = [Fin 0]
   \<and> series_max [Fin 0] = Fin 0
   \<and> fround 2 (fsub (Fin 100) (fmul (fdiv (Fin 0) (Fin 0)) (Fin 100))) = NaN
   \<and> map pressure_risk_score (output_rows (transform_data sample_env [hydrant ''1'' ''Active'' ''0'']))
       = [Fin 100]
   \<and> map pressure_risk_score (output_rows (transform_data sample_env [hydrant ''1'' ''Active'' ''0'']))
       \<noteq> [fround 2 (fsub (Fin 100) (fmul (fdiv (Fin 0) (Fin 0)) (Fin 100)))]"
proof -
  let ?b = "[hydrant ''1'' ''Active'' ''0'']"
  let ?rows = "output_rows (transform_data sample_env ?b)"
  have run: "transform_data sample_env ?b = Inr (Features ?rows)"
    by (rule single_hydrant_run)
  have p: "coerced_pressure sample_env (hydrant ''1'' ''Active'' ''0'') = Fin 0"
    by (simp add: coerced_pressure_def sample_defs cell_def to_numeric_def)
  have mx: "series_max [Fin 0] = Fin 0"
    by (simp add: series_max_def isna_def)
  have len: "length ?rows = 1"
    using transform_data_row(1) [OF run, of 0] by simp
  have formula: "fround 2 (fsub (Fin 100) (fmul (fdiv (Fin 0) (Fin 0)) (Fin 100))) = NaN"
    by (simp add: fsub_def fround_NaN)
  have score: "pressure_risk_score (?rows ! 0) = Fin 100"
    using transform_data_row(8) [OF run, of 0]
    by (simp add: p mx risk_score_undefined fdiv_signed_nan_iff)
  show ?thesis
    using p mx formula score by (simp add: singleton_map [OF len])
qed

section \<open>The pipeline: the claims\<close>

text \<open>
  C4. When the fetcher has delivered a raw file and validation finds no valid record in
  it, \<open>run_pipeline\<close> ends with the error \<open>No valid data to process after validation.\<close>
  raised to its caller, the alert sink has received the failure message, and the disk is
  as the fetcher left it: no directory was made and no file but the raw file was written,
  so no partition was written.
\<close>

theorem empty_valid_set_fails:
  assumes "fetch_data cfg w = (Inr raw_file, w1)"
    and "validate_data (read_json (disk w1)) raw_file = Inr ([], invalid_count)"
  shows "run_pipeline cfg w =
           (Inl (ValueError ''No valid data to process after validation.''),
            w1\<lparr>alerts := alerts w1 @
               [''ALERT: Hydrant pipeline failed: No valid data to process after validation.'']\<rparr>)
       \<and> alerts w1 = alerts w
       \<and> disk (snd (run_pipeline cfg w)) = disk w1
       \<and> dirs (disk (snd (run_pipeline cfg w))) = dirs (disk w)
       \<and> (\<forall>p. p \<noteq> raw_file \<longrightarrow> files (disk (snd (run_pipeline cfg w))) p = files (disk w) p)"
proof -
  have run: "run_pipeline cfg w =
           (Inl (ValueError ''No valid data to process after validation.''),
            w1\<lparr>alerts := alerts w1 @
               [''ALERT: Hydrant pipeline failed: No valid data to process after validation.'']\<rparr>)"
    using assms by (simp add: run_pipeline_def pipeline_failed_def send_alert_def str_exc_def)
  have w1: "alerts w1 = alerts w" "dirs (disk w1) = dirs (disk w)"
    "\<And>p. p \<noteq> raw_file \<Longrightarrow> files (disk w1) p = files (disk w) p"
    using assms(1)
    by (auto simp: fetch_data_def Let_def split: sum.splits if_splits)
  show ?thesis
    using w1 by (simp add: run)
qed

theorem empty_valid_set_fails_witness:
  "fetch_data empty_payload_setting fresh_world
     = (Inr ''data/raw/firehydrants_20250112T143000Z.json'',
        fresh_world\<lparr>disk := (disk fresh_world)
           \<lparr>files := [''data/raw/firehydrants_20250112T143000Z.json'' \<mapsto> Json []]\<rparr>\<rparr>)
   \<and> validate_data
        (read_json (disk (fresh_world\<lparr>disk := (disk fresh_world)
           \<lparr>files := [''data/raw/firehydrants_20250112T143000Z.json'' \<mapsto> Json []]\<rparr>\<rparr>)))
        ''data/raw/firehydrants_20250112T143000Z.json'' = Inr ([], 0)
   \<and> run_pipeline empty_payload_setting fresh_world =
        (Inl (ValueError ''No valid data to process after validation.''),
         \<lparr> disk = \<lparr> dirs = {''data'', ''data/raw'', ''data/processed''},
                    files = [''data/raw/firehydrants_20250112T143000Z.json'' \<mapsto> Json []] \<rparr>,
           alerts = [''ALERT: Hydrant pipeline failed: No valid data to process after validation.''] \<rparr>)"
proof -
  have f: "fetch_data empty_payload_setting fresh_world
     = (Inr ''data/raw/firehydrants_20250112T143000Z.json'',
        fresh_world\<lparr>disk := (disk fresh_world)
           \<lparr>files := [''data/raw/firehydrants_20250112T143000Z.json'' \<mapsto> Json []]\<rparr>\<rparr>)"
    by (simp add: fetch_data_def empty_payload_setting_def fresh_world_def DATA_DIR_def Let_def)
  have v: "validate_data
        (read_json (disk (fresh_world\<lparr>disk := (disk fresh_world)
           \<lparr>files := [''data/raw/firehydrants_20250112T143000Z.json'' \<mapsto> Json []]\<rparr>\<rparr>)))
        ''data/raw/firehydrants_20250112T143000Z.json'' = Inr ([], 0)"
    by (simp add: validate_data_def read_json_def)
  show ?thesis
    using empty_valid_set_fails [OF f v] f v
    by (simp add: fresh_world_def)
qed

section \<open>Storage: proofs and the claim\<close>

lemma mkdir_chain_files: "mkdir_chain fs ds = Inr fs1 \<Longrightarrow> files fs1 = files fs"
  by (induction ds arbitrary: fs) (auto split: if_splits)

lemma mkdir_chain_ok:
  "\<forall>d \<in> set ds. d \<notin> dom (files fs) \<Longrightarrow> mkdir_chain fs ds = Inr (fs\<lparr>dirs := dirs fs \<union> set ds\<rparr>)"
proof (induction ds arbitrary: fs)
  case Nil
  then show ?case by simp
next
  case (Cons d ds)
  have "mkdir_chain (fs\<lparr>dirs := insert d (dirs fs)\<rparr>) ds
      = Inr (fs\<lparr>dirs := insert d (dirs fs)\<rparr>\<lparr>dirs := dirs (fs\<lparr>dirs := insert d (dirs fs)\<rparr>) \<union> set ds\<rparr>)"
    using Cons.prems by (intro Cons.IH) simp
  then show ?case using Cons.prems by (simp add: Un_insert_left)
qed

lemma mkdir_chain_blocked:
  "\<exists>d \<in> set ds. d \<in> dom (files fs) \<Longrightarrow> \<exists>e. mkdir_chain fs ds = Inl e"
proof (induction ds arbitrary: fs)
  case Nil
  then show ?case by simp
next
  case (Cons d ds)
  show ?case
  proof (cases "d \<in> dom (files fs)")
    case True
    then show ?thesis by simp
  next
    case False
    then have "\<exists>x \<in> set ds. x \<in> dom (files (fs\<lparr>dirs := insert d (dirs fs)\<rparr>))"
      using Cons.prems by auto
    from Cons.IH [OF this] False show ?thesis by simp
  qed
qed

lemma parents_from_shorter:
  "d \<in> set (parents_from seen p) \<Longrightarrow> length d < length seen + length p"
proof (induction p arbitrary: seen)
  case Nil
  then show ?case by simp
next
  case (Cons c cs)
  then show ?case by (fastforce split: if_splits)
qed

lemma parents_shorter: "d \<in> set (parents p) \<Longrightarrow> length d < length p"
  using parents_from_shorter [of d "[]" p] by (simp add: parents_def)

lemma digit_char_not_slash: "digit_char n \<noteq> CHR ''/''"
proof -
  have "digit_char n \<in> set ''0123456789''"
    unfolding digit_char_def by (rule nth_mem) simp
  then show ?thesis by auto
qed

lemma partition_path:
  fixes base date
  defines "part \<equiv> os_path_join base (''load_date='' @ strftime_ymd date)"
  shows "part \<noteq> []" and "last part \<noteq> CHR ''/''"
    and "os_path_join part ''firehydrants.parquet'' = part @ ''/firehydrants.parquet''"
    and "base \<noteq> [] \<and> last base \<noteq> CHR ''/'' \<longrightarrow> part = base @ ''/load_date='' @ strftime_ymd date"
proof -
  have l: "last (strftime_ymd date) \<noteq> CHR ''/''"
    by (simp add: strftime_ymd_def digit_char_not_slash)
  have ne: "strftime_ymd date \<noteq> []" by (simp add: strftime_ymd_def)
  show 1: "part \<noteq> []" by (simp add: part_def os_path_join_def)
  show 2: "last part \<noteq> CHR ''/''"
    using l ne by (simp add: part_def os_path_join_def)
  show "os_path_join part ''firehydrants.parquet'' = part @ ''/firehydrants.parquet''"
    using 1 2 by (simp add: os_path_join_def)
  show "base \<noteq> [] \<and> last base \<noteq> CHR ''/'' \<longrightarrow> part = base @ ''/load_date='' @ strftime_ymd date"
    by (simp add: part_def os_path_join_def)
qed


lemma target_not_in_chain:
  "part @ ''/firehydrants.parquet'' \<notin> set (parents part @ [part])"
  using parents_shorter [of "part @ ''/firehydrants.parquet''" part] by auto

lemma save_parquet_Features:
  "save_parquet fs (Features (first # rest)) base =
     (case makedirs fs (os_path_join base (''load_date='' @ strftime_ymd (load_date first))) of
        Inl e \<Rightarrow> (Inl e, fs)
      | Inr fs1 \<Rightarrow>
          to_parquet (first # rest) fs1
            (os_path_join (os_path_join base (''load_date='' @ strftime_ymd (load_date first)))
               ''firehydrants.parquet''))"
  by (simp only: save_parquet_def Let_def frame.case list.case)

lemma save_parquet_clear:
  fixes fs first rest base
  defines "part \<equiv> os_path_join base (''load_date='' @ strftime_ymd (load_date first))"
  assumes "\<forall>d \<in> set (parents part @ [part]). d \<notin> dom (files fs)"
    and "part @ ''/firehydrants.parquet'' \<notin> dirs fs"
  shows "save_parquet fs (Features (first # rest)) base =
     (Inr (), fs\<lparr>dirs := dirs fs \<union> set (parents part @ [part]),
                  files := (files fs)(part @ ''/firehydrants.parquet'' \<mapsto> Parquet (first # rest))\<rparr>)"
proof -
  have mk: "makedirs fs part = Inr (fs\<lparr>dirs := dirs fs \<union> set (parents part @ [part])\<rparr>)"
    unfolding makedirs_def using assms(2) by (rule mkdir_chain_ok)
  have tg: "os_path_join part ''firehydrants.parquet'' = part @ ''/firehydrants.parquet''"
    unfolding part_def by (rule partition_path(3))
  have "part @ ''/firehydrants.parquet'' \<notin> dirs fs \<union> set (parents part @ [part])"
    using assms(3) target_not_in_chain [of part] by blast
  then show ?thesis
    unfolding save_parquet_Features part_def [symmetric]
    by (simp add: mk tg to_parquet_def del: set_append)
qed

lemma save_parquet_blocked:
  fixes fs first rest base
  defines "part \<equiv> os_path_join base (''load_date='' @ strftime_ymd (load_date first))"
  assumes "\<not> ((\<forall>d \<in> set (parents part @ [part]). d \<notin> dom (files fs))
             \<and> part @ ''/firehydrants.parquet'' \<notin> dirs fs)"
  shows "\<exists>e fs1. save_parquet fs (Features (first # rest)) base = (Inl e, fs1) \<and> files fs1 = files fs"
proof (cases "\<forall>d \<in> set (parents part @ [part]). d \<notin> dom (files fs)")
  case False
  then have "\<exists>e. makedirs fs part = Inl e"
    unfolding makedirs_def by (intro mkdir_chain_blocked) blast
  then show ?thesis
    unfolding save_parquet_Features part_def [symmetric] by auto
next
  case True
  have mk: "makedirs fs part = Inr (fs\<lparr>dirs := dirs fs \<union> set (parents part @ [part])\<rparr>)"
    unfolding makedirs_def using True by (rule mkdir_chain_ok)
  have tg: "os_path_join part ''firehydrants.parquet'' = part @ ''/firehydrants.parquet''"
    unfolding part_def by (rule partition_path(3))
  have "part @ ''/firehydrants.parquet'' \<in> dirs fs" using assms(2) True by blast
  then show ?thesis
    unfolding save_parquet_Features part_def [symmetric]
    by (simp add: mk tg to_parquet_def del: set_append)
qed

lemma save_parquet_again:
  fixes fs first rest first2 rest2 base
  defines "part \<equiv> os_path_join base (''load_date='' @ strftime_ymd (load_date first))"
  defines "written \<equiv> fs\<lparr>dirs := dirs fs \<union> set (parents part @ [part]),
                  files := (files fs)(part @ ''/firehydrants.parquet'' \<mapsto> Parquet (first # rest))\<rparr>"
  assumes "\<forall>d \<in> set (parents part @ [part]). d \<notin> dom (files fs)"
    and "part @ ''/firehydrants.parquet'' \<notin> dirs fs"
    and "load_date first2 = load_date first"
  shows "save_parquet written (Features (first2 # rest2)) base =
     (Inr (), written\<lparr>files := (files written)(part @ ''/firehydrants.parquet'' \<mapsto> Parquet (first2 # rest2))\<rparr>)"
proof -
  have part2: "os_path_join base (''load_date='' @ strftime_ymd (load_date first2)) = part"
    by (simp add: part_def assms(5))
  have a: "\<forall>d \<in> set (parents part @ [part]). d \<notin> dom (files written)"
    using assms(3) target_not_in_chain [of part] by (auto simp: written_def)
  have b: "part @ ''/firehydrants.parquet'' \<notin> dirs written"
    using assms(4) target_not_in_chain [of part] by (auto simp: written_def)
  have "save_parquet written (Features (first2 # rest2)) base =
     (Inr (), written\<lparr>dirs := dirs written \<union> set (parents part @ [part]),
        files := (files written)(part @ ''/firehydrants.parquet'' \<mapsto> Parquet (first2 # rest2))\<rparr>)"
    using save_parquet_clear [of base first2 written rest2] a b unfolding part2 by blast
  moreover have "dirs written \<union> set (parents part @ [part]) = dirs written"
    by (auto simp: written_def)
  ultimately show ?thesis by simp
qed


text \<open>
  C6. For a non-empty dataset, \<open>save_parquet\<close> takes the partition directory
  \<open>{base}/load_date={YYYY-MM-DD}\<close> from the \<open>load_date\<close> of the first row and writes the
  dataset to the one file \<open>firehydrants.parquet\<close> in it. The call succeeds exactly when no
  regular file stands where a directory is needed and no directory stands where the file
  goes (\<open>clear\<close>); a directory that is already there is no error and is left as it is.
  A second write to the same partition succeeds then as well, replaces the content of the
  file and adds no path: a partition that held no file before holds exactly this one,
  with the dataset written last.
\<close>

theorem save_parquet_partition:
  assumes "rows \<noteq> []"
  shows "let part = os_path_join base (''load_date='' @ strftime_ymd (load_date (hd rows)));
             target = part @ ''/firehydrants.parquet'';
             clear = ((\<forall>d \<in> set (parents part @ [part]). d \<notin> dom (files fs)) \<and> target \<notin> dirs fs);
             written = fs\<lparr>dirs := dirs fs \<union> set (parents part @ [part]),
                          files := (files fs)(target \<mapsto> Parquet rows)\<rparr>
         in os_path_join part ''firehydrants.parquet'' = target
          \<and> (base \<noteq> [] \<and> last base \<noteq> CHR ''/'' \<longrightarrow>
                part = base @ ''/load_date='' @ strftime_ymd (load_date (hd rows)))
          \<and> (clear \<longrightarrow> save_parquet fs (Features rows) base = (Inr (), written))
          \<and> (\<not> clear \<longrightarrow>
                (\<exists>e fs1. save_parquet fs (Features rows) base = (Inl e, fs1) \<and> files fs1 = files fs))
          \<and> (clear \<and> set (parents part @ [part]) \<subseteq> dirs fs \<longrightarrow> dirs written = dirs fs)
          \<and> (\<forall>rows2. clear \<and> rows2 \<noteq> [] \<and> load_date (hd rows2) = load_date (hd rows) \<longrightarrow>
                save_parquet written (Features rows2) base
                  = (Inr (), written\<lparr>files := (files written)(target \<mapsto> Parquet rows2)\<rparr>)
              \<and> dom ((files written)(target \<mapsto> Parquet rows2)) = dom (files written)
              \<and> ((\<forall>p \<in> dom (files fs). \<not> prefix (part @ ''/'') p) \<longrightarrow>
                   {p \<in> dom ((files written)(target \<mapsto> Parquet rows2)). prefix (part @ ''/'') p}
                     = {target}))"
proof -
  from assms obtain first rest where rows: "rows = first # rest" by (cases rows) auto
  define part where "part = os_path_join base (''load_date='' @ strftime_ymd (load_date first))"
  define target where "target = part @ ''/firehydrants.parquet''"
  define clear where
    "clear \<longleftrightarrow> (\<forall>d \<in> set (parents part @ [part]). d \<notin> dom (files fs)) \<and> target \<notin> dirs fs"
  define written where
    "written = fs\<lparr>dirs := dirs fs \<union> set (parents part @ [part]),
                   files := (files fs)(target \<mapsto> Parquet rows)\<rparr>"
  have c1: "os_path_join part ''firehydrants.parquet'' = target"
    unfolding part_def target_def by (rule partition_path(3))
  have c2: "base \<noteq> [] \<and> last base \<noteq> CHR ''/'' \<longrightarrow>
      part = base @ ''/load_date='' @ strftime_ymd (load_date first)"
    unfolding part_def by (rule partition_path(4))
  have c3: "save_parquet fs (Features rows) base = (Inr (), written)" if clear
    using that save_parquet_clear [of base first fs rest]
    unfolding clear_def written_def target_def part_def rows by blast
  have c4: "\<exists>e fs1. save_parquet fs (Features rows) base = (Inl e, fs1) \<and> files fs1 = files fs"
    if "\<not> clear"
    using that save_parquet_blocked [of base first fs rest]
    unfolding clear_def target_def part_def rows by blast
  have c5: "dirs written = dirs fs" if "set (parents part @ [part]) \<subseteq> dirs fs"
    using that by (auto simp: written_def)
  have c6: "save_parquet written (Features rows2) base
      = (Inr (), written\<lparr>files := (files written)(target \<mapsto> Parquet rows2)\<rparr>)"
    if clear "rows2 \<noteq> []" "load_date (hd rows2) = load_date first" for rows2
  proof -
    from that(2) obtain first2 rest2 where rows2: "rows2 = first2 # rest2" by (cases rows2) auto
    show ?thesis
      using that(1,3) save_parquet_again [of base first fs first2 rest rest2]
      unfolding clear_def written_def target_def part_def rows rows2 by simp
  qed
  have c7: "dom ((files written)(target \<mapsto> Parquet rows2)) = dom (files written)" for rows2
    by (auto simp: written_def)
  have c8: "{p \<in> dom ((files written)(target \<mapsto> Parquet rows2)). prefix (part @ ''/'') p} = {target}"
    if "\<forall>p \<in> dom (files fs). \<not> prefix (part @ ''/'') p" for rows2
  proof -
    have "prefix (part @ ''/'') target" by (simp add: target_def)
    then show ?thesis using that by (auto simp: written_def)
  qed
  have "os_path_join part ''firehydrants.parquet'' = target
          \<and> (base \<noteq> [] \<and> last base \<noteq> CHR ''/'' \<longrightarrow>
                part = base @ ''/load_date='' @ strftime_ymd (load_date first))
          \<and> (clear \<longrightarrow> save_parquet fs (Features rows) base = (Inr (), written))
          \<and> (\<not> clear \<longrightarrow>
                (\<exists>e fs1. save_parquet fs (Features rows) base = (Inl e, fs1) \<and> files fs1 = files fs))
          \<and> (clear \<and> set (parents part @ [part]) \<subseteq> dirs fs \<longrightarrow> dirs written = dirs fs)
          \<and> (\<forall>rows2. clear \<and> rows2 \<noteq> [] \<and> load_date (hd rows2) = load_date first \<longrightarrow>
                save_parquet written (Features rows2) base
                  = (Inr (), written\<lparr>files := (files written)(target \<mapsto> Parquet rows2)\<rparr>)
              \<and> dom ((files written)(target \<mapsto> Parquet rows2)) = dom (files written)
              \<and> ((\<forall>p \<in> dom (files fs). \<not> prefix (part @ ''/'') p) \<longrightarrow>
                   {p \<in> dom ((files written)(target \<mapsto> Parquet rows2)). prefix (part @ ''/'') p}
                     = {target}))"
    using c1 c2 c3 c4 c5 c6 c7 c8 by blast
  then show ?thesis
    unfolding Let_def clear_def written_def target_def part_def rows list.sel .
qed


lemma sample_rows_head:
  "output_rows (transform_data sample_env sample_batch) \<noteq> []"
  "load_date (hd (output_rows (transform_data sample_env sample_batch)))
     = \<lparr>year = 2025, month = 1, day = 12\<rparr>"
proof -
  have len: "length (output_rows (transform_data sample_env sample_batch)) = 6"
    using transform_data_row(1) [OF sample_batch_run, of 0] by (simp add: sample_batch_length)
  then show ne: "output_rows (transform_data sample_env sample_batch) \<noteq> []" by auto
  show "load_date (hd (output_rows (transform_data sample_env sample_batch)))
     = \<lparr>year = 2025, month = 1, day = 12\<rparr>"
  proof -
    have d: "utc_date sample_env = \<lparr>year = 2025, month = 1, day = 12\<rparr>"
      by (simp add: sample_env_def)
    show ?thesis
      using transform_data_row(10) [OF sample_batch_run, of 0] ne
      by (simp add: sample_batch_length hd_conv_nth d)
  qed
qed

lemma sample_partition_path:
  "os_path_join ''data/processed'' (''load_date='' @ strftime_ymd \<lparr>year = 2025, month = 1, day = 12\<rparr>)
     = ''data/processed/load_date=2025-01-12''"
  "parents ''data/processed/load_date=2025-01-12'' = [''data'', ''data/processed'']"
  by (simp_all add: os_path_join_def strftime_ymd_def digit_char_def parents_def)

lemma autumn_run:
  "transform_data autumn_env [hydrant ''1'' ''Active'' ''45'']
     = Inr (Features (output_rows (transform_data autumn_env [hydrant ''1'' ''Active'' ''45''])))"
  by (rule complete_batch_run [where oids = "[Some 1]"])
    (simp_all add: autumn_env_def sample_defs REQUIRED_COLS_def cell_def to_numeric_def
      to_Int64_def)

lemma autumn_rows_head:
  "output_rows (transform_data autumn_env [hydrant ''1'' ''Active'' ''45'']) \<noteq> []"
  "load_date (hd (output_rows (transform_data autumn_env [hydrant ''1'' ''Active'' ''45''])))
     = \<lparr>year = 2024, month = 11, day = 3\<rparr>"
proof -
  have len: "length (output_rows (transform_data autumn_env [hydrant ''1'' ''Active'' ''45''])) = 1"
    using transform_data_row(1) [OF autumn_run, of 0] by simp
  then show ne: "output_rows (transform_data autumn_env [hydrant ''1'' ''Active'' ''45'']) \<noteq> []"
    by auto
  have d: "utc_date autumn_env = \<lparr>year = 2024, month = 11, day = 3\<rparr>"
    by (simp add: autumn_env_def)
  show "load_date (hd (output_rows (transform_data autumn_env [hydrant ''1'' ''Active'' ''45''])))
     = \<lparr>year = 2024, month = 11, day = 3\<rparr>"
    using transform_data_row(10) [OF autumn_run, of 0] ne by (simp add: hd_conv_nth d)
qed

lemma autumn_partition_path:
  "os_path_join ''data/processed'' (''load_date='' @ strftime_ymd \<lparr>year = 2024, month = 11, day = 3\<rparr>)
     = ''data/processed/load_date=2024-11-03''"
  "parents ''data/processed/load_date=2024-11-03'' = [''data'', ''data/processed'']"
  by (simp_all add: os_path_join_def strftime_ymd_def digit_char_def parents_def)

theorem save_parquet_partition_witness:
  "output_rows (transform_data sample_env sample_batch) \<noteq> []
   \<and> save_parquet (disk fresh_world)
        (Features (output_rows (transform_data sample_env sample_batch))) ''data/processed''
      = (Inr (),
         \<lparr> dirs = {''data'', ''data/raw'', ''data/processed'', ''data/processed/load_date=2025-01-12''},
           files = [''data/processed/load_date=2025-01-12/firehydrants.parquet''
                      \<mapsto> Parquet (output_rows (transform_data sample_env sample_batch))] \<rparr>)
   \<and> save_parquet
        \<lparr> dirs = {''data'', ''data/raw'', ''data/processed'', ''data/processed/load_date=2025-01-12''},
          files = [''data/processed/load_date=2025-01-12/firehydrants.parquet''
                      \<mapsto> Parquet (output_rows (transform_data sample_env sample_batch))] \<rparr>
        (Features [hd (output_rows (transform_data sample_env sample_batch))]) ''data/processed''
      = (Inr (),
         \<lparr> dirs = {''data'', ''data/raw'', ''data/processed'', ''data/processed/load_date=2025-01-12''},
           files = [''data/processed/load_date=2025-01-12/firehydrants.parquet''
                      \<mapsto> Parquet [hd (output_rows (transform_data sample_env sample_batch))]] \<rparr>)
   \<and> output_rows (transform_data autumn_env [hydrant ''1'' ''Active'' ''45'']) \<noteq> []
   \<and> save_parquet (disk fresh_world)
        (Features (output_rows (transform_data autumn_env [hydrant ''1'' ''Active'' ''45''])))
        ''data/processed''
      = (Inr (),
         \<lparr> dirs = {''data'', ''data/raw'', ''data/processed'', ''data/processed/load_date=2024-11-03''},
           files = [''data/processed/load_date=2024-11-03/firehydrants.parquet''
                      \<mapsto> Parquet (output_rows
                            (transform_data autumn_env [hydrant ''1'' ''Active'' ''45'']))] \<rparr>)"
proof -
  let ?rows = "output_rows (transform_data sample_env sample_batch)"
  let ?autumn = "output_rows (transform_data autumn_env [hydrant ''1'' ''Active'' ''45''])"
  note later = save_parquet_partition [OF autumn_rows_head(1), of "''data/processed''" "disk fresh_world",
      unfolded Let_def autumn_rows_head(2) autumn_partition_path]
  have third: "save_parquet (disk fresh_world) (Features ?autumn) ''data/processed''
      = (Inr (),
         \<lparr> dirs = {''data'', ''data/raw'', ''data/processed'', ''data/processed/load_date=2024-11-03''},
           files = [''data/processed/load_date=2024-11-03/firehydrants.parquet'' \<mapsto> Parquet ?autumn] \<rparr>)"
    using later [THEN conjunct2, THEN conjunct2, THEN conjunct1]
    by (simp add: fresh_world_def insert_commute)
  note facts = save_parquet_partition [OF sample_rows_head(1), of "''data/processed''" "disk fresh_world",
      unfolded Let_def sample_rows_head(2) sample_partition_path]
  have first: "save_parquet (disk fresh_world) (Features ?rows) ''data/processed''
      = (Inr (),
         \<lparr> dirs = {''data'', ''data/raw'', ''data/processed'', ''data/processed/load_date=2025-01-12''},
           files = [''data/processed/load_date=2025-01-12/firehydrants.parquet'' \<mapsto> Parquet ?rows] \<rparr>)"
    using facts [THEN conjunct2, THEN conjunct2, THEN conjunct1]
    by (simp add: fresh_world_def insert_commute)
  have second: "save_parquet
        \<lparr> dirs = {''data'', ''data/raw'', ''data/processed'', ''data/processed/load_date=2025-01-12''},
          files = [''data/processed/load_date=2025-01-12/firehydrants.parquet'' \<mapsto> Parquet ?rows] \<rparr>
        (Features [hd ?rows]) ''data/processed''
      = (Inr (),
         \<lparr> dirs = {''data'', ''data/raw'', ''data/processed'', ''data/processed/load_date=2025-01-12''},
           files = [''data/processed/load_date=2025-01-12/firehydrants.parquet'' \<mapsto> Parquet [hd ?rows]] \<rparr>)"
    using facts [THEN conjunct2, THEN conjunct2, THEN conjunct2, THEN conjunct2, THEN conjunct2,
        rule_format, of "[hd ?rows]", THEN conjunct1]
    by (simp add: fresh_world_def insert_commute sample_rows_head(2))
  show ?thesis using sample_rows_head(1) first second autumn_rows_head(1) third by blast
qed

end
